theory Spec2Isabelle
  imports Main "HOL-Library.AList"
begin

section \<open>Values of the parsed schema document\<close>

text \<open>
  The schema is an in-memory tree as Python's \<open>json\<close> module produces it: \<open>None\<close>,
  booleans, integers, floats, strings, lists and dictionaries. A float is kept as the
  pair \<open>(m, e)\<close> standing for \<open>m * 2 ^ e\<close>; the extractors only pass numbers on and
  never compute with them. A dictionary is an association list in insertion order.
\<close>

datatype json =
    JNull
  | JBool bool
  | JInt int
  | JFloat int int
  | JStr string
  | JArr "json list"
  | JObj "(string \<times> json) list"

type_synonym pydict = "(string \<times> json) list"

text \<open>
  The exceptions the extractors can raise, as values; a \<open>TypeError\<close> carries Python's
  message, in which the name of a type stands in single quotes.
\<close>

definition quoted :: "string \<Rightarrow> string" where
  "quoted s = CHR 0x27 # s @ [CHR 0x27]"

datatype error =
    NotImplementedError string
  | KeyError json
  | TypeError string
  | UnresolvedReferenceError string
  | UnsupportedReferenceError
  | CyclicReferenceError
  | NoMatchingExtractorError

text \<open>
  \<open>d[key]\<close> and \<open>key in d\<close> on a Python dictionary; \<open>d[key] = val\<close> keeps the position
  of a key that is already there and appends a new key, which is \<open>AList.update\<close>;
  \<open>d.update(other)\<close> stores the items of \<open>other\<close> in their order.
\<close>

definition dict_contains :: "pydict \<Rightarrow> string \<Rightarrow> bool" where
  "dict_contains d key = (map_of d key \<noteq> None)"

definition dict_getitem :: "pydict \<Rightarrow> string \<Rightarrow> error + json" where
  "dict_getitem d key = (case map_of d key of None \<Rightarrow> Inl (KeyError (JStr key)) | Some v \<Rightarrow> Inr v)"

definition dict_setitem :: "pydict \<Rightarrow> string \<Rightarrow> json \<Rightarrow> pydict" where
  "dict_setitem d key val = AList.update key val d"

fun dict_update :: "pydict \<Rightarrow> pydict \<Rightarrow> pydict" where
  "dict_update d [] = d"
| "dict_update d ((key, val) # other) = dict_update (dict_setitem d key val) other"

section \<open>Schema nodes and the store\<close>

text \<open>
  A schema node (class \<open>JSONSchema\<close>) is an object: the extractors hold a reference to
  it, and \<open>RefTraitCode\<close> assigns to the \<open>metadata\<close> attribute of one. Objects live in a
  store, a list indexed by address; a new object is appended.

  Modelled from the spec: the attributes of \<open>JSONSchema\<close>, a class that is not among the
  source files. They are those of the data model (the underlying subtree, the document
  root, the path from the root) and the metadata of the site, which the reference
  extractor reads and assigns.
\<close>

record node =
  subtree :: pydict
  root :: json
  path :: "string list"
  metadata :: pydict

type_synonym addr = nat
type_synonym heap = "node list"

text \<open>
  The type of a node, and the \<open>typecode\<close> of an extractor: absent (\<open>None\<close>), one
  string, or a list of strings.
\<close>

datatype typecode = Undefined | Single string | Multi "string list"

text \<open>Python's truth value of a typecode, for \<open>typecode or schema.type\<close>.\<close>

fun truthy :: "typecode \<Rightarrow> bool" where
  "truthy Undefined = False"
| "truthy (Single s) = (s \<noteq> [])"
| "truthy (Multi ts) = (ts \<noteq> [])"

text \<open>
  Arguments of a generated call: a value rendered by \<open>repr\<close>, or a \<open>Variable\<close>, whose
  name is rendered as it is. \<open>Variable\<close> wraps a string everywhere but in the
  \<open>anyOf\<close>/\<open>oneOf\<close>/\<open>allOf\<close> extractors, where it wraps a list of variables.
\<close>

datatype arg = Val json | Variable string | VariableList "arg list"

text \<open>
  The parts of the repository the extractors call and that are not in the source
  files at hand are parameters: \<open>utils.construct_function_call\<close>, which renders a call
  from a name, positional arguments and keyword arguments, and the methods and
  properties of \<open>JSONSchema\<close>. Those that may create node objects take the store and
  return the new one.
\<close>

record env =
  construct_function_call :: "string \<Rightarrow> arg list \<Rightarrow> pydict \<Rightarrow> string"
  schema_type :: "heap \<Rightarrow> addr \<Rightarrow> typecode"
  get_reference :: "heap \<Rightarrow> addr \<Rightarrow> json \<Rightarrow> (error + addr) \<times> heap"
  is_object :: "heap \<Rightarrow> addr \<Rightarrow> bool"
  classname :: "heap \<Rightarrow> addr \<Rightarrow> string"
  copy_node :: "heap \<Rightarrow> addr \<Rightarrow> addr \<times> heap"
  make_child :: "heap \<Rightarrow> addr \<Rightarrow> json \<Rightarrow> addr \<times> heap"
  node_trait_code :: "heap \<Rightarrow> addr \<Rightarrow> (error + string) \<times> heap"

text \<open>
  Modelled from the spec: \<open>key in schema\<close> and \<open>schema[key]\<close> on a node
  (\<open>JSONSchema.__contains__\<close> and \<open>__getitem__\<close>, not among the source files). The node
  is a view of its subtree, so they are the membership test and the lookup of the
  underlying dictionary, a missing key being a \<open>KeyError\<close>.
\<close>

definition schema_contains :: "heap \<Rightarrow> addr \<Rightarrow> string \<Rightarrow> bool" where
  "schema_contains h a key = dict_contains (subtree (h ! a)) key"

definition schema_getitem :: "heap \<Rightarrow> addr \<Rightarrow> string \<Rightarrow> error + json" where
  "schema_getitem h a key = dict_getitem (subtree (h ! a)) key"

section \<open>The extractors\<close>

text \<open>
  \<open>TraitCodeExtractor.__init__\<close>: the extractor keeps the node and
  \<open>typecode or schema.type\<close>.
\<close>

record extractor =
  schema :: addr
  typecode :: typecode

definition TraitCodeExtractor_init :: "env \<Rightarrow> heap \<Rightarrow> addr \<Rightarrow> typecode \<Rightarrow> extractor" where
  "TraitCodeExtractor_init env h a tc =
     \<lparr>schema = a, typecode = (if truthy tc then tc else schema_type env h a)\<rparr>"

subsection \<open>SimpleTraitCode\<close>

definition simple_types :: "string list" where
  "simple_types = [''boolean'', ''null'', ''number'', ''integer'', ''string'']"

definition classes :: "(string \<times> string) list" where
  "classes = [(''boolean'', ''jst.JSONBoolean''),
              (''null'', ''jst.JSONNull''),
              (''number'', ''jst.JSONNumber''),
              (''integer'', ''jst.JSONInteger''),
              (''string'', ''jst.JSONString'')]"

definition validation_keys :: "(string \<times> string list) list" where
  "validation_keys =
     [(''number'', [''minimum'', ''exclusiveMinimum'', ''maximum'', ''exclusiveMaximum'',
                    ''multipleOf'']),
      (''integer'', [''minimum'', ''exclusiveMinimum'', ''maximum'', ''exclusiveMaximum'',
                     ''multipleOf''])]"

text \<open>\<open>self.typecode in self.simple_types\<close>: only a string can equal a member.\<close>

fun SimpleTraitCode_check :: "extractor \<Rightarrow> bool" where
  "SimpleTraitCode_check self =
     (case typecode self of Single t \<Rightarrow> t \<in> set simple_types | _ \<Rightarrow> False)"

text \<open>
  \<open>self.classes[self.typecode]\<close>: a list is unhashable (\<open>TypeError\<close>), a missing key is
  a \<open>KeyError\<close>.
\<close>

fun classes_getitem :: "typecode \<Rightarrow> error + string" where
  "classes_getitem Undefined = Inl (KeyError JNull)"
| "classes_getitem (Single t) =
     (case map_of classes t of None \<Rightarrow> Inl (KeyError (JStr t)) | Some c \<Rightarrow> Inr c)"
| "classes_getitem (Multi ts) = Inl (TypeError (''unhashable type: '' @ quoted ''list''))"

text \<open>\<open>self.validation_keys.get(self.typecode, [])\<close>, reached with a hashable typecode.\<close>

fun validation_keys_get :: "typecode \<Rightarrow> string list" where
  "validation_keys_get (Single t) = (case map_of validation_keys t of None \<Rightarrow> [] | Some ks \<Rightarrow> ks)"
| "validation_keys_get _ = []"

text \<open>\<open>{key: self.schema[key] for key in keys if key in self.schema}\<close>\<close>

definition present_items :: "heap \<Rightarrow> addr \<Rightarrow> string list \<Rightarrow> pydict" where
  "present_items h a keys =
     concat (map (\<lambda>key. case map_of (subtree (h ! a)) key of None \<Rightarrow> [] | Some v \<Rightarrow> [(key, v)]) keys)"

definition SimpleTraitCode_trait_code :: "env \<Rightarrow> heap \<Rightarrow> extractor \<Rightarrow> pydict \<Rightarrow> error + string" where
  "SimpleTraitCode_trait_code env h self kwargs =
     (case classes_getitem (typecode self) of
        Inl e \<Rightarrow> Inl e
      | Inr cls \<Rightarrow>
          let keys = validation_keys_get (typecode self);
              kwargs' = dict_update kwargs (present_items h (schema self) keys)
          in Inr (construct_function_call env cls [] kwargs'))"

subsection \<open>CompoundTraitCode\<close>

text \<open>
  Iterating a typecode and testing membership in it, as Python does on each kind of
  value: \<open>None\<close> is not iterable; a string yields its characters (strings of length
  one) and \<open>in\<close> on it is the substring test; a list yields its elements.
\<close>

fun starts_with :: "string \<Rightarrow> string \<Rightarrow> bool" where
  "starts_with s [] = True"
| "starts_with [] (c # cs) = False"
| "starts_with (d # ds) (c # cs) = (d = c \<and> starts_with ds cs)"

fun str_contains :: "string \<Rightarrow> string \<Rightarrow> bool" where
  "str_contains [] sub = (sub = [])"
| "str_contains (d # ds) sub = (starts_with (d # ds) sub \<or> str_contains ds sub)"

fun typecode_iter :: "typecode \<Rightarrow> error + string list" where
  "typecode_iter Undefined = Inl (TypeError (quoted ''NoneType'' @ '' object is not iterable''))"
| "typecode_iter (Single s) = Inr (map (\<lambda>c. [c]) s)"
| "typecode_iter (Multi ts) = Inr ts"

fun typecode_contains :: "typecode \<Rightarrow> string \<Rightarrow> error + bool" where
  "typecode_contains Undefined x = Inl (TypeError (''argument of type '' @ quoted ''NoneType'' @ '' is not iterable''))"
| "typecode_contains (Single s) x = Inr (str_contains s x)"
| "typecode_contains (Multi ts) x = Inr (x \<in> set ts)"

text \<open>
  \<open>all(typ in self.simple_types for typ in self.typecode) and isinstance(self.typecode, list)\<close>:
  the iteration comes first, so an absent typecode raises.
\<close>

definition CompoundTraitCode_check :: "extractor \<Rightarrow> error + bool" where
  "CompoundTraitCode_check self =
     (case typecode_iter (typecode self) of
        Inl e \<Rightarrow> Inl e
      | Inr ts \<Rightarrow> Inr (list_all (\<lambda>typ. typ \<in> set simple_types) ts \<and>
                       (case typecode self of Multi _ \<Rightarrow> True | _ \<Rightarrow> False)))"

text \<open>A generator consumed by \<open>join\<close>: the first element that raises ends it.\<close>

fun map_raise :: "('a \<Rightarrow> error + 'b) \<Rightarrow> 'a list \<Rightarrow> error + 'b list" where
  "map_raise f [] = Inr []"
| "map_raise f (x # xs) =
     (case f x of
        Inl e \<Rightarrow> Inl e
      | Inr y \<Rightarrow> (case map_raise f xs of Inl e \<Rightarrow> Inl e | Inr ys \<Rightarrow> Inr (y # ys)))"

text \<open>\<open>sep.join(xs)\<close>\<close>

fun join :: "string \<Rightarrow> string list \<Rightarrow> string" where
  "join sep [] = []"
| "join sep [x] = x"
| "join sep (x # y # ys) = x @ sep @ join sep (y # ys)"

definition flag_keys :: "string list" where
  "flag_keys = [''allow_none'', ''allow_undefined'']"

definition CompoundTraitCode_trait_code :: "env \<Rightarrow> heap \<Rightarrow> extractor \<Rightarrow> pydict \<Rightarrow> error + string" where
  "CompoundTraitCode_trait_code env h self kwargs =
     (case typecode_contains (typecode self) ''null'' of
        Inl e \<Rightarrow> Inl e
      | Inr has_null \<Rightarrow>
          let kwargs1 = (if has_null then dict_setitem kwargs ''allow_none'' (JBool True) else kwargs)
          in (case typecode_iter (typecode self) of
                Inl e \<Rightarrow> Inl e
              | Inr ts \<Rightarrow>
                  let tc = filter (\<lambda>typ. typ \<noteq> ''null'') ts
                  in if length tc = 1
                     then SimpleTraitCode_trait_code env h
                            (TraitCodeExtractor_init env h (schema self) (Single (hd tc))) kwargs1
                     else
                       let item_kwargs = filter (\<lambda>(key, val). key \<notin> set flag_keys) kwargs1
                       in (case map_raise
                                  (\<lambda>typ. SimpleTraitCode_trait_code env h
                                     (TraitCodeExtractor_init env h (schema self) (Single typ))
                                     item_kwargs) tc of
                             Inl e \<Rightarrow> Inl e
                           | Inr codes \<Rightarrow>
                               Inr (construct_function_call env ''jst.JSONUnion''
                                      [Variable (''['' @ join '', '' codes @ '']'')] kwargs1))))"

subsection \<open>RefTraitCode\<close>

definition RefTraitCode_check :: "heap \<Rightarrow> extractor \<Rightarrow> bool" where
  "RefTraitCode_check h self = schema_contains h (schema self) ''$ref''"

text \<open>
  The branch for a target that is not an object copies the resolved node, assigns the
  metadata of the referencing node to the copy and returns the copy's trait code;
  \<open>kwargs\<close> is not used there.
\<close>

definition RefTraitCode_trait_code ::
  "env \<Rightarrow> heap \<Rightarrow> extractor \<Rightarrow> pydict \<Rightarrow> (error + string) \<times> heap" where
  "RefTraitCode_trait_code env h self kwargs =
     (case schema_getitem h (schema self) ''$ref'' of
        Inl e \<Rightarrow> (Inl e, h)
      | Inr r \<Rightarrow>
          (case get_reference env h (schema self) r of
             (Inl e, h1) \<Rightarrow> (Inl e, h1)
           | (Inr ref, h1) \<Rightarrow>
               if is_object env h1 ref
               then (Inr (construct_function_call env ''jst.JSONInstance''
                            [Variable (classname env h1 ref)] kwargs), h1)
               else
                 (case copy_node env h1 ref of
                    (ref', h2) \<Rightarrow>
                      let h3 = h2[ref' := (h2 ! ref')\<lparr>metadata := metadata (h2 ! schema self)\<rparr>]
                      in node_trait_code env h3 ref')))"

subsection \<open>EnumTraitCode\<close>

definition EnumTraitCode_check :: "heap \<Rightarrow> extractor \<Rightarrow> bool" where
  "EnumTraitCode_check h self = schema_contains h (schema self) ''enum''"

definition EnumTraitCode_trait_code :: "env \<Rightarrow> heap \<Rightarrow> extractor \<Rightarrow> pydict \<Rightarrow> error + string" where
  "EnumTraitCode_trait_code env h self kwargs =
     (case schema_getitem h (schema self) ''enum'' of
        Inl e \<Rightarrow> Inl e
      | Inr vals \<Rightarrow> Inr (construct_function_call env ''jst.JSONEnum'' [Val vals] kwargs))"

subsection \<open>ArrayTraitCode\<close>

definition ArrayTraitCode_check :: "env \<Rightarrow> heap \<Rightarrow> extractor \<Rightarrow> bool" where
  "ArrayTraitCode_check env h self = (schema_type env h (schema self) = Single ''array'')"

text \<open>\<open>if key in self.schema: kwargs[name] = self.schema[key]\<close>\<close>

definition forward_key :: "heap \<Rightarrow> addr \<Rightarrow> string \<Rightarrow> string \<Rightarrow> pydict \<Rightarrow> pydict" where
  "forward_key h a key name kwargs =
     (case map_of (subtree (h ! a)) key of
        None \<Rightarrow> kwargs
      | Some v \<Rightarrow> dict_setitem kwargs name v)"

fun isinstance_list :: "json \<Rightarrow> bool" where
  "isinstance_list (JArr xs) = True"
| "isinstance_list _ = False"

definition ArrayTraitCode_trait_code ::
  "env \<Rightarrow> heap \<Rightarrow> extractor \<Rightarrow> pydict \<Rightarrow> (error + string) \<times> heap" where
  "ArrayTraitCode_trait_code env h self kwargs =
     (case schema_getitem h (schema self) ''items'' of
        Inl e \<Rightarrow> (Inl e, h)
      | Inr items \<Rightarrow>
          let kwargs1 = forward_key h (schema self) ''minItems'' ''minlen'' kwargs;
              kwargs2 = forward_key h (schema self) ''maxItems'' ''maxlen'' kwargs1;
              kwargs3 = forward_key h (schema self) ''uniqueItems'' ''uniqueItems'' kwargs2
          in if isinstance_list items
             then (Inl (NotImplementedError (CHR 0x27 # ''items'' @ CHR 0x27 # '' keyword as list'')), h)
             else
               (case make_child env h (schema self) items of
                  (child, h1) \<Rightarrow>
                    (case node_trait_code env h1 child of
                       (Inl e, h2) \<Rightarrow> (Inl e, h2)
                     | (Inr itemtype, h2) \<Rightarrow>
                         (Inr (construct_function_call env ''jst.JSONArray''
                                 [Variable itemtype] kwargs3), h2))))"

subsection \<open>AnyOfTraitCode, OneOfTraitCode, AllOfTraitCode\<close>

text \<open>
  Iterating a value of the schema: a list yields its elements, a dictionary its keys,
  a string its characters; the other values are not iterable.
\<close>

fun py_iter :: "json \<Rightarrow> error + json list" where
  "py_iter (JArr xs) = Inr xs"
| "py_iter (JObj kvs) = Inr (map (\<lambda>kv. JStr (fst kv)) kvs)"
| "py_iter (JStr s) = Inr (map (\<lambda>c. JStr [c]) s)"
| "py_iter JNull = Inl (TypeError (quoted ''NoneType'' @ '' object is not iterable''))"
| "py_iter (JBool b) = Inl (TypeError (quoted ''bool'' @ '' object is not iterable''))"
| "py_iter (JInt i) = Inl (TypeError (quoted ''int'' @ '' object is not iterable''))"
| "py_iter (JFloat m e) = Inl (TypeError (quoted ''float'' @ '' object is not iterable''))"

text \<open>
  \<open>[Variable(self.schema.make_child(sub_schema).trait_code) for sub_schema in subs]\<close>:
  each child is made and its trait code computed in turn; the first error ends the
  comprehension.
\<close>

fun child_codes :: "env \<Rightarrow> heap \<Rightarrow> addr \<Rightarrow> json list \<Rightarrow> (error + string list) \<times> heap" where
  "child_codes env h a [] = (Inr [], h)"
| "child_codes env h a (sub_schema # subs) =
     (case make_child env h a sub_schema of
        (child, h1) \<Rightarrow>
          (case node_trait_code env h1 child of
             (Inl e, h2) \<Rightarrow> (Inl e, h2)
           | (Inr code, h2) \<Rightarrow>
               (case child_codes env h2 a subs of
                  (Inl e, h3) \<Rightarrow> (Inl e, h3)
                | (Inr codes, h3) \<Rightarrow> (Inr (code # codes), h3))))"

text \<open>The body the three extractors share, for the keyword and the constructor name.\<close>

definition composition_trait_code ::
  "string \<Rightarrow> string \<Rightarrow> env \<Rightarrow> heap \<Rightarrow> extractor \<Rightarrow> pydict \<Rightarrow> (error + string) \<times> heap" where
  "composition_trait_code keyword name env h self kwargs =
     (case schema_getitem h (schema self) keyword of
        Inl e \<Rightarrow> (Inl e, h)
      | Inr v \<Rightarrow>
          (case py_iter v of
             Inl e \<Rightarrow> (Inl e, h)
           | Inr subs \<Rightarrow>
               (case child_codes env h (schema self) subs of
                  (Inl e, h1) \<Rightarrow> (Inl e, h1)
                | (Inr codes, h1) \<Rightarrow>
                    (Inr (construct_function_call env name
                            [VariableList (map Variable codes)] kwargs), h1))))"

definition AnyOfTraitCode_check :: "heap \<Rightarrow> extractor \<Rightarrow> bool" where
  "AnyOfTraitCode_check h self = schema_contains h (schema self) ''anyOf''"

definition AnyOfTraitCode_trait_code ::
  "env \<Rightarrow> heap \<Rightarrow> extractor \<Rightarrow> pydict \<Rightarrow> (error + string) \<times> heap" where
  "AnyOfTraitCode_trait_code = composition_trait_code ''anyOf'' ''jst.JSONAnyOf''"

definition OneOfTraitCode_check :: "heap \<Rightarrow> extractor \<Rightarrow> bool" where
  "OneOfTraitCode_check h self = schema_contains h (schema self) ''oneOf''"

definition OneOfTraitCode_trait_code ::
  "env \<Rightarrow> heap \<Rightarrow> extractor \<Rightarrow> pydict \<Rightarrow> (error + string) \<times> heap" where
  "OneOfTraitCode_trait_code = composition_trait_code ''oneOf'' ''jst.JSONOneOf''"

definition AllOfTraitCode_check :: "heap \<Rightarrow> extractor \<Rightarrow> bool" where
  "AllOfTraitCode_check h self = schema_contains h (schema self) ''allOf''"

definition AllOfTraitCode_trait_code ::
  "env \<Rightarrow> heap \<Rightarrow> extractor \<Rightarrow> pydict \<Rightarrow> (error + string) \<times> heap" where
  "AllOfTraitCode_trait_code = composition_trait_code ''allOf'' ''jst.JSONAllOf''"

subsection \<open>NotTraitCode\<close>

definition NotTraitCode_check :: "heap \<Rightarrow> extractor \<Rightarrow> bool" where
  "NotTraitCode_check h self = schema_contains h (schema self) ''not''"

definition NotTraitCode_trait_code ::
  "env \<Rightarrow> heap \<Rightarrow> extractor \<Rightarrow> pydict \<Rightarrow> (error + string) \<times> heap" where
  "NotTraitCode_trait_code env h self kwargs =
     (case schema_getitem h (schema self) ''not'' of
        Inl e \<Rightarrow> (Inl e, h)
      | Inr v \<Rightarrow>
          (case make_child env h (schema self) v of
             (child, h1) \<Rightarrow>
               (case node_trait_code env h1 child of
                  (Inl e, h2) \<Rightarrow> (Inl e, h2)
                | (Inr not_this, h2) \<Rightarrow>
                    (Inr (construct_function_call env ''jst.JSONNot''
                            [Variable not_this] kwargs), h2))))"

subsection \<open>ObjectTraitCode\<close>

definition ObjectTraitCode_check :: "extractor \<Rightarrow> bool" where
  "ObjectTraitCode_check self = (typecode self = Single ''object'')"

definition ObjectTraitCode_trait_code :: "env \<Rightarrow> heap \<Rightarrow> extractor \<Rightarrow> pydict \<Rightarrow> error + string" where
  "ObjectTraitCode_trait_code env h self kwargs = Inl (NotImplementedError ''Anonymous Objects'')"

section \<open>The extractor chain\<close>

text \<open>
  The ten extractor classes, and \<open>check\<close> and \<open>trait_code\<close> of each by its class. No
  \<open>check\<close> assigns to anything: it reads the node and returns, so it takes the store and
  returns no new one. \<open>trait_code\<close> returns the store it leaves.
\<close>

datatype kind =
    SimpleTraitCode | CompoundTraitCode | RefTraitCode | EnumTraitCode | ArrayTraitCode
  | AnyOfTraitCode | OneOfTraitCode | AllOfTraitCode | NotTraitCode | ObjectTraitCode

fun check :: "kind \<Rightarrow> env \<Rightarrow> heap \<Rightarrow> extractor \<Rightarrow> error + bool" where
  "check SimpleTraitCode env h self = Inr (SimpleTraitCode_check self)"
| "check CompoundTraitCode env h self = CompoundTraitCode_check self"
| "check RefTraitCode env h self = Inr (RefTraitCode_check h self)"
| "check EnumTraitCode env h self = Inr (EnumTraitCode_check h self)"
| "check ArrayTraitCode env h self = Inr (ArrayTraitCode_check env h self)"
| "check AnyOfTraitCode env h self = Inr (AnyOfTraitCode_check h self)"
| "check OneOfTraitCode env h self = Inr (OneOfTraitCode_check h self)"
| "check AllOfTraitCode env h self = Inr (AllOfTraitCode_check h self)"
| "check NotTraitCode env h self = Inr (NotTraitCode_check h self)"
| "check ObjectTraitCode env h self = Inr (ObjectTraitCode_check self)"

fun trait_code :: "kind \<Rightarrow> env \<Rightarrow> heap \<Rightarrow> extractor \<Rightarrow> pydict \<Rightarrow> (error + string) \<times> heap" where
  "trait_code SimpleTraitCode env h self kwargs = (SimpleTraitCode_trait_code env h self kwargs, h)"
| "trait_code CompoundTraitCode env h self kwargs = (CompoundTraitCode_trait_code env h self kwargs, h)"
| "trait_code RefTraitCode env h self kwargs = RefTraitCode_trait_code env h self kwargs"
| "trait_code EnumTraitCode env h self kwargs = (EnumTraitCode_trait_code env h self kwargs, h)"
| "trait_code ArrayTraitCode env h self kwargs = ArrayTraitCode_trait_code env h self kwargs"
| "trait_code AnyOfTraitCode env h self kwargs = AnyOfTraitCode_trait_code env h self kwargs"
| "trait_code OneOfTraitCode env h self kwargs = OneOfTraitCode_trait_code env h self kwargs"
| "trait_code AllOfTraitCode env h self kwargs = AllOfTraitCode_trait_code env h self kwargs"
| "trait_code NotTraitCode env h self kwargs = NotTraitCode_trait_code env h self kwargs"
| "trait_code ObjectTraitCode env h self kwargs = (ObjectTraitCode_trait_code env h self kwargs, h)"

text \<open>
  Modelled from the spec: the dispatch of \<open>JSONSchema.trait_code\<close>, which is not among
  the source files. The chain takes the extractors in the fixed priority order of the
  specification, builds each one for the node with no typecode of its own, and uses
  the first whose \<open>check()\<close> returns true; a check that does not return true (it returns
  false, or cannot be evaluated on a node without a type) is no match. With no match
  the chain fails with \<open>NoMatchingExtractorError\<close>.
\<close>

definition priority_order :: "kind list" where
  "priority_order =
     [RefTraitCode, EnumTraitCode, SimpleTraitCode, CompoundTraitCode, ArrayTraitCode,
      AnyOfTraitCode, OneOfTraitCode, AllOfTraitCode, NotTraitCode, ObjectTraitCode]"

fun first_match :: "kind list \<Rightarrow> env \<Rightarrow> heap \<Rightarrow> extractor \<Rightarrow> kind option" where
  "first_match [] env h self = None"
| "first_match (k # ks) env h self =
     (if check k env h self = Inr True then Some k else first_match ks env h self)"

text \<open>
  Modelled from the spec: the options \<open>property_options\<close> that the chain passes to
  \<open>trait_code\<close>. The specification names them without listing them; they are taken to
  be the metadata of the node, the per-node context it attaches to a site.
\<close>

definition property_options :: "node \<Rightarrow> pydict" where
  "property_options nd = metadata nd"

definition chain :: "env \<Rightarrow> heap \<Rightarrow> addr \<Rightarrow> (error + string) \<times> heap" where
  "chain env h a =
     (let self = TraitCodeExtractor_init env h a Undefined
      in case first_match priority_order env h self of
           None \<Rightarrow> (Inl NoMatchingExtractorError, h)
         | Some k \<Rightarrow> trait_code k env h self (property_options (h ! a)))"

section \<open>The schema node class and the call renderer\<close>

text \<open>
  Modelled from the spec: \<open>utils.construct_function_call\<close> and \<open>Variable\<close>, which are
  not among the source files. The call is rendered as the name followed by the
  positional and then the keyword arguments in parentheses; a value is rendered as
  Python writes it, a variable by its name.
\<close>

fun nat_repr :: "nat \<Rightarrow> string" where
  "nat_repr n =
     (if n < 10 then [''0123456789'' ! n]
      else nat_repr (n div 10) @ [''0123456789'' ! (n mod 10)])"

declare nat_repr.simps [simp del]

definition int_repr :: "int \<Rightarrow> string" where
  "int_repr i = (if i < 0 then ''-'' @ nat_repr (nat (- i)) else nat_repr (nat i))"

definition str_repr :: "string \<Rightarrow> string" where
  "str_repr s =
     CHR 0x27 # concat (map (\<lambda>c. if c = CHR 0x27 \<or> c = CHR 0x5C then [CHR 0x5C, c] else [c]) s)
       @ [CHR 0x27]"

fun repr :: "json \<Rightarrow> string" where
  "repr JNull = ''None''"
| "repr (JBool b) = (if b then ''True'' else ''False'')"
| "repr (JInt i) = int_repr i"
| "repr (JFloat m e) = int_repr m @ ''*2.0**'' @ int_repr e"
| "repr (JStr s) = str_repr s"
| "repr (JArr xs) = ''['' @ join '', '' (map repr xs) @ '']''"
| "repr (JObj kvs) =
     ''{'' @ join '', '' (map (\<lambda>kv. str_repr (fst kv) @ '': '' @ repr (snd kv)) kvs) @ ''}''"

fun format_arg :: "arg \<Rightarrow> string" where
  "format_arg (Val v) = repr v"
| "format_arg (Variable name) = name"
| "format_arg (VariableList vs) = ''['' @ join '', '' (map format_arg vs) @ '']''"

definition render_call :: "string \<Rightarrow> arg list \<Rightarrow> pydict \<Rightarrow> string" where
  "render_call name args kwargs =
     name @ ''('' @
       join '', '' (map format_arg args @ map (\<lambda>kv. fst kv @ ''='' @ repr (snd kv)) kwargs) @
     '')''"

text \<open>
  Modelled from the spec: the derived property \<open>type\<close> of \<open>JSONSchema\<close>. An explicit
  \<open>type\<close> keyword is used as it is, a string or a list of strings. Without one, \<open>enum\<close>
  gives no type, \<open>properties\<close> or \<open>additionalProperties\<close> give \<open>object\<close>, \<open>items\<close> gives
  \<open>array\<close>, and otherwise the type is undefined.
\<close>

fun json_strings :: "json list \<Rightarrow> string list option" where
  "json_strings [] = Some []"
| "json_strings (JStr s # vs) = (case json_strings vs of None \<Rightarrow> None | Some ss \<Rightarrow> Some (s # ss))"
| "json_strings (v # vs) = None"

definition node_type :: "node \<Rightarrow> typecode" where
  "node_type nd =
     (case map_of (subtree nd) ''type'' of
        Some (JStr s) \<Rightarrow> Single s
      | Some (JArr vs) \<Rightarrow> (case json_strings vs of Some ss \<Rightarrow> Multi ss | None \<Rightarrow> Undefined)
      | Some _ \<Rightarrow> Undefined
      | None \<Rightarrow>
          if dict_contains (subtree nd) ''enum'' then Undefined
          else if dict_contains (subtree nd) ''properties'' \<or>
                  dict_contains (subtree nd) ''additionalProperties'' then Single ''object''
          else if dict_contains (subtree nd) ''items'' then Single ''array''
          else Undefined)"

text \<open>
  Modelled from the spec: the metadata of a site, its \<open>title\<close> and \<open>description\<close>.
\<close>

definition site_metadata :: "pydict \<Rightarrow> pydict" where
  "site_metadata d = filter (\<lambda>kv. fst kv \<in> set [''title'', ''description'']) d"

text \<open>
  Modelled from the spec: \<open>JSONSchema.get_reference\<close>, the reference resolver. A
  reference that does not start with \<open>#\<close> is unsupported; the segments of the path are
  walked from the document root, and a missing segment is an unresolved reference. The
  target is a new node with the same root.
\<close>

fun split_on :: "char \<Rightarrow> string \<Rightarrow> string list" where
  "split_on c [] = [[]]"
| "split_on c (x # xs) =
     (if x = c then [] # split_on c xs
      else (case split_on c xs of [] \<Rightarrow> [[x]] | w # ws \<Rightarrow> (x # w) # ws))"

fun walk :: "json \<Rightarrow> string list \<Rightarrow> json option" where
  "walk v [] = Some v"
| "walk (JObj d) (seg # segs) = (case map_of d seg of None \<Rightarrow> None | Some v \<Rightarrow> walk v segs)"
| "walk _ (seg # segs) = None"

definition resolve :: "heap \<Rightarrow> addr \<Rightarrow> json \<Rightarrow> (error + addr) \<times> heap" where
  "resolve h a r =
     (case r of
        JStr (c # rest) \<Rightarrow>
          if c \<noteq> CHR ''#'' then (Inl UnsupportedReferenceError, h)
          else
            let segs = filter (\<lambda>seg. seg \<noteq> []) (split_on CHR ''/'' rest)
            in (case walk (root (h ! a)) segs of
                  Some (JObj d) \<Rightarrow>
                    (Inr (length h),
                     h @ [\<lparr>subtree = d, root = root (h ! a), path = segs,
                            metadata = site_metadata d\<rparr>])
                | _ \<Rightarrow> (Inl (UnresolvedReferenceError (c # rest)), h))
      | _ \<Rightarrow> (Inl UnsupportedReferenceError, h))"

text \<open>
  Modelled from the spec: \<open>JSONSchema.make_child\<close>, a new node for a nested subtree
  with the same root and the path extended (by the key under which the parent holds the
  sub-schema); \<open>JSONSchema.copy\<close>, a new node with the attributes of the old one;
  \<open>is_object\<close>, true for type \<open>object\<close> and for an entry of the definitions, which becomes
  a class of its own; \<open>classname\<close>, derived from the path.
\<close>

definition holds_schema :: "json \<Rightarrow> json \<Rightarrow> bool" where
  "holds_schema v sub = (v = sub \<or> (case v of JArr xs \<Rightarrow> sub \<in> set xs | _ \<Rightarrow> False))"

definition child_key :: "pydict \<Rightarrow> json \<Rightarrow> string" where
  "child_key d sub = (case filter (\<lambda>kv. holds_schema (snd kv) sub) d of [] \<Rightarrow> [] | kv # _ \<Rightarrow> fst kv)"

definition new_child :: "heap \<Rightarrow> addr \<Rightarrow> json \<Rightarrow> addr \<times> heap" where
  "new_child h a sub =
     (let d = (case sub of JObj d \<Rightarrow> d | _ \<Rightarrow> [])
      in (length h,
          h @ [\<lparr>subtree = d, root = root (h ! a),
                 path = path (h ! a) @ [child_key (subtree (h ! a)) sub],
                 metadata = site_metadata d\<rparr>]))"

definition new_copy :: "heap \<Rightarrow> addr \<Rightarrow> addr \<times> heap" where
  "new_copy h a = (length h, h @ [h ! a])"

definition node_is_object :: "node \<Rightarrow> bool" where
  "node_is_object nd =
     (node_type nd = Single ''object'' \<or>
      (length (path nd) = 2 \<and> hd (path nd) \<in> set [''definitions'', ''$defs'']))"

definition node_classname :: "node \<Rightarrow> string" where
  "node_classname nd = (if path nd = [] then ''Root'' else last (path nd))"

text \<open>
  The environment of the extractors with these parts, for a given way to compute the
  trait code of a node; and the trait code of a node itself, the chain with the
  recursion bounded by the nesting depth: a chain of references that has not ended
  within the bound is reported as \<open>CyclicReferenceError\<close>.
\<close>

definition JSONSchema_env :: "(heap \<Rightarrow> addr \<Rightarrow> (error + string) \<times> heap) \<Rightarrow> env" where
  "JSONSchema_env tc =
     \<lparr>construct_function_call = render_call,
      schema_type = (\<lambda>h a. node_type (h ! a)),
      get_reference = resolve,
      is_object = (\<lambda>h a. node_is_object (h ! a)),
      classname = (\<lambda>h a. node_classname (h ! a)),
      copy_node = new_copy,
      make_child = new_child,
      node_trait_code = tc\<rparr>"

primrec JSONSchema_trait_code :: "nat \<Rightarrow> heap \<Rightarrow> addr \<Rightarrow> (error + string) \<times> heap" where
  "JSONSchema_trait_code 0 = (\<lambda>h a. (Inl CyclicReferenceError, h))"
| "JSONSchema_trait_code (Suc depth) = chain (JSONSchema_env (JSONSchema_trait_code depth))"

section \<open>What the extractors rely on\<close>

text \<open>
  The nodes are never mutated by the node class itself, and derived and child nodes
  are constructed fresh. On the store this says: a method of the node class leaves
  every object that exists where it is and as it is, so the store after the call
  extends the store before it.
\<close>

definition extends :: "heap \<Rightarrow> heap \<Rightarrow> bool" where
  "extends h h' = (take (length h) h' = h)"

text \<open>
  The methods that may create nodes only add objects, and return addresses of the
  store they leave; \<open>copy\<close> returns a new object with the attributes of the old one.
\<close>

definition allocates_only :: "env \<Rightarrow> bool" where
  "allocates_only env =
     (\<forall>h a. a < length h \<longrightarrow>
        (\<forall>r. case get_reference env h a r of
               (Inl e, h') \<Rightarrow> extends h h'
             | (Inr ref, h') \<Rightarrow> extends h h' \<and> ref < length h') \<and>
        (\<forall>sub. case make_child env h a sub of
                 (child, h') \<Rightarrow> extends h h' \<and> child < length h') \<and>
        (case copy_node env h a of
           (c, h') \<Rightarrow> extends h h' \<and> length h \<le> c \<and> c < length h' \<and> h' ! c = h ! a) \<and>
        extends h (snd (node_trait_code env h a)))"

text \<open>
  Two references to nodes with the same attributes, possibly in different stores.
\<close>

definition same_node :: "heap \<Rightarrow> addr \<Rightarrow> heap \<Rightarrow> addr \<Rightarrow> bool" where
  "same_node h a h' a' = (a < length h \<and> a' < length h' \<and> h ! a = h' ! a')"

text \<open>
  Resolution and the derived properties are deterministic and read nothing but the
  node: on nodes with the same attributes the methods give the same type, object
  flag, class name and trait code, the same error, and nodes with the same attributes.
\<close>

definition reads_node_only :: "env \<Rightarrow> bool" where
  "reads_node_only env =
     (\<forall>h a h' a'. same_node h a h' a' \<longrightarrow>
        schema_type env h a = schema_type env h' a' \<and>
        is_object env h a = is_object env h' a' \<and>
        classname env h a = classname env h' a' \<and>
        (\<forall>r. case (get_reference env h a r, get_reference env h' a' r) of
               ((Inl e, h1), (Inl e', h1')) \<Rightarrow> e = e'
             | ((Inr x, h1), (Inr x', h1')) \<Rightarrow> h1 ! x = h1' ! x'
             | _ \<Rightarrow> False) \<and>
        (\<forall>sub. case (make_child env h a sub, make_child env h' a' sub) of
                 ((c, h1), (c', h1')) \<Rightarrow> h1 ! c = h1' ! c') \<and>
        fst (node_trait_code env h a) = fst (node_trait_code env h' a'))"

section \<open>Example schemas\<close>

text \<open>
  A document with one definition and an array of references to it, and single nodes, on
  which the properties below are evaluated.
\<close>

definition example_document :: json where
  "example_document =
     JObj [(''definitions'',
             JObj [(''Person'',
                     JObj [(''properties'',
                             JObj [(''name'', JObj [(''type'', JStr ''string'')]),
                                   (''age'', JObj [(''type'', JStr ''integer''),
                                                   (''minimum'', JInt 0)])])])]),
           (''properties'',
             JObj [(''people'',
                     JObj [(''type'', JStr ''array''),
                           (''minItems'', JInt 1),
                           (''items'', JObj [(''$ref'', JStr ''#/definitions/Person'')])])])]"

definition age_node :: node where
  "age_node = \<lparr>subtree = [(''type'', JStr ''integer''), (''minimum'', JInt 0), (''maximum'', JInt 120)],
                root = example_document, path = [''age''], metadata = []\<rparr>"

definition example_env :: env where
  "example_env = JSONSchema_env (JSONSchema_trait_code 3)"

definition union_node :: node where
  "union_node = \<lparr>subtree = [(''type'', JArr [JStr ''number'', JStr ''string'', JStr ''null'']),
                               (''maximum'', JInt 12), (''minLength'', JInt 3)],
                  root = example_document, path = [''size''], metadata = []\<rparr>"

definition nullable_node :: node where
  "nullable_node = \<lparr>subtree = [(''type'', JArr [JStr ''string'', JStr ''null''])],
                     root = example_document, path = [''nickname''], metadata = []\<rparr>"

definition name_node :: node where
  "name_node = \<lparr>subtree = [(''type'', JStr ''string''), (''minLength'', JInt 1),
                              (''maxLength'', JInt 64), (''pattern'', JStr ''^[a-z]+$'')],
                 root = example_document, path = [''name''], metadata = []\<rparr>"

definition null_only_node :: node where
  "null_only_node = \<lparr>subtree = [(''type'', JArr [JStr ''null''])],
                      root = example_document, path = [''nothing''], metadata = []\<rparr>"

definition no_types_node :: node where
  "no_types_node = \<lparr>subtree = [(''type'', JArr [])],
                     root = example_document, path = [''nothing''], metadata = []\<rparr>"



definition people_node :: node where
  "people_node = \<lparr>subtree = [(''type'', JStr ''array''), (''minItems'', JInt 1),
                                (''uniqueItems'', JBool True),
                                (''items'', JObj [(''$ref'', JStr ''#/definitions/Person'')])],
                   root = example_document, path = [''properties'', ''people''], metadata = []\<rparr>"

definition person_ref_node :: node where
  "person_ref_node = \<lparr>subtree = [(''$ref'', JStr ''#/definitions/Person''), (''title'', JStr ''owner'')],
                       root = example_document, path = [''owner''],
                       metadata = [(''title'', JStr ''owner'')]\<rparr>"

definition alias_node :: node where
  "alias_node = \<lparr>subtree = [(''$ref'', JStr ''#/properties/people''),
                               (''description'', JStr ''everyone'')],
                  root = example_document, path = [''crowd''],
                  metadata = [(''description'', JStr ''everyone'')]\<rparr>"

text \<open>
  Two inline nodes of type \<open>object\<close>, neither an entry of the definitions: one with
  nothing but its properties, one that also has an \<open>enum\<close>.
\<close>

definition object_enum_node :: node where
  "object_enum_node = \<lparr>subtree = [(''type'', JStr ''object''), (''enum'', JArr [JInt 1, JInt 2])],
                        root = example_document, path = [''properties'', ''kind''], metadata = []\<rparr>"

definition inline_object_node :: node where
  "inline_object_node =
     \<lparr>subtree = [(''type'', JStr ''object''),
                 (''properties'', JObj [(''street'', JObj [(''type'', JStr ''string'')])])],
      root = example_document, path = [''properties'', ''address''], metadata = []\<rparr>"

text \<open>
  An environment that breaks the assumption: the resolver hands out the node at
  address 1 that is already in the store, and \<open>copy\<close> returns the object itself.
\<close>

definition no_copy_env :: env where
  "no_copy_env = example_env\<lparr>get_reference := (\<lambda>h a r. (Inr 1, h)), copy_node := (\<lambda>h a. (a, h))\<rparr>"

section \<open>Properties of the extractors\<close>

subsection \<open>Dictionaries\<close>

lemma map_of_dict_setitem: "map_of (dict_setitem d key val) = (map_of d)(key \<mapsto> val)"
  by (simp add: dict_setitem_def update_conv')

lemma keys_dict_setitem: "fst ` set (dict_setitem d key val) = insert key (fst ` set d)"
  by (simp add: dict_setitem_def dom_update)

lemma map_of_dict_update: "map_of (dict_update d other) = map_of d ++ map_of (rev other)"
proof (induction other arbitrary: d)
  case Nil
  show ?case by simp
next
  case (Cons kv other)
  obtain key val where kv: "kv = (key, val)" by (cases kv)
  have "map_of (dict_update d (kv # other)) = map_of (dict_setitem d key val) ++ map_of (rev other)"
    unfolding kv dict_update.simps by (rule Cons.IH)
  also have "\<dots> = (map_of d)(key \<mapsto> val) ++ map_of (rev other)"
    by (simp only: map_of_dict_setitem)
  also have "\<dots> = map_of d ++ map_of (rev (kv # other))"
    by (rule ext) (simp add: kv map_add_def split: option.splits)
  finally show ?case .
qed

lemma keys_dict_update: "fst ` set (dict_update d other) = fst ` set d \<union> fst ` set other"
proof (induction other arbitrary: d)
  case Nil
  show ?case by simp
next
  case (Cons kv other)
  obtain key val where kv: "kv = (key, val)" by (cases kv)
  have "fst ` set (dict_update d (kv # other)) = fst ` set (dict_setitem d key val) \<union> fst ` set other"
    unfolding kv dict_update.simps by (rule Cons.IH)
  then show ?case by (simp add: keys_dict_setitem kv)
qed

lemma present_items_iff:
  "(key, v) \<in> set (present_items h a keys) \<longleftrightarrow> key \<in> set keys \<and> map_of (subtree (h ! a)) key = Some v"
  by (auto simp: present_items_def split: option.splits)

lemma dict_update_present:
  assumes "key \<in> set keys" and "map_of (subtree (h ! a)) key = Some v"
  shows "map_of (dict_update d (present_items h a keys)) key = Some v"
proof -
  let ?other = "present_items h a keys"
  have mem: "(key, v) \<in> set (rev ?other)" using assms by (simp add: present_items_iff)
  then obtain v' where v': "map_of (rev ?other) key = Some v'"
    using weak_map_of_SomeI by fastforce
  then have "(key, v') \<in> set ?other" by (auto dest: map_of_SomeD)
  then have "v' = v" using assms(2) by (simp add: present_items_iff)
  with v' show ?thesis by (simp add: map_of_dict_update map_add_def)
qed

subsection \<open>Simple and compound extractors\<close>

lemma classes_simple: "t \<in> set simple_types \<Longrightarrow> \<exists>cls. map_of classes t = Some cls"
  by (auto simp: simple_types_def classes_def)

lemma validation_keys_numeric:
  "t \<in> {''number'', ''integer''} \<Longrightarrow>
   validation_keys_get (Single t) =
     [''minimum'', ''exclusiveMinimum'', ''maximum'', ''exclusiveMaximum'', ''multipleOf'']"
  by (auto simp: validation_keys_def)

lemma validation_keys_other:
  "t \<in> {''string'', ''boolean'', ''null''} \<Longrightarrow> validation_keys_get (Single t) = []"
  by (auto simp: validation_keys_def)

lemma init_Single: "typ \<noteq> [] \<Longrightarrow>
  TraitCodeExtractor_init env h a (Single typ) = \<lparr>schema = a, typecode = Single typ\<rparr>"
  by (simp add: TraitCodeExtractor_init_def)

lemma simple_type_nonempty: "typ \<in> set simple_types \<Longrightarrow> typ \<noteq> []"
  by (auto simp: simple_types_def)

lemma SimpleTraitCode_simple:
  assumes "typ \<in> set simple_types"
  shows "\<exists>cls. map_of classes typ = Some cls \<and>
           SimpleTraitCode_trait_code env h \<lparr>schema = a, typecode = Single typ\<rparr> kw =
             Inr (construct_function_call env cls []
                    (dict_update kw (present_items h a (validation_keys_get (Single typ)))))"
  using classes_simple [OF assms] by (auto simp: SimpleTraitCode_trait_code_def)

lemma validation_keys_not_flags:
  "key \<in> set (validation_keys_get tc) \<Longrightarrow> key \<notin> set flag_keys"
  by (cases tc) (auto simp: validation_keys_def flag_keys_def split: if_splits)

lemma present_items_keys: "fst ` set (present_items h a keys) \<subseteq> set keys"
  by (auto simp: present_items_iff)

lemma branch_kwargs_no_flags:
  assumes "key \<in> set flag_keys"
  shows "key \<notin> fst ` set (dict_update (filter (\<lambda>(key, val). key \<notin> set flag_keys) kw)
                             (present_items h a (validation_keys_get tc)))"
proof -
  have "key \<notin> fst ` set (filter (\<lambda>(key, val). key \<notin> set flag_keys) kw)"
    using assms by auto
  moreover have "key \<notin> fst ` set (present_items h a (validation_keys_get tc))"
    using assms validation_keys_not_flags present_items_keys by blast
  ultimately show ?thesis by (simp add: keys_dict_update)
qed

lemma map_raise_Inr:
  "(\<And>x. x \<in> set xs \<Longrightarrow> f x = Inr (g x)) \<Longrightarrow> map_raise f xs = Inr (map g xs)"
  by (induction xs) simp_all

lemma map_raise_length: "map_raise f xs = Inr ys \<Longrightarrow> length ys = length xs"
  by (induction xs arbitrary: ys) (auto split: sum.splits)

lemma map_raise_nth:
  "map_raise f xs = Inr ys \<Longrightarrow> i < length xs \<Longrightarrow> f (xs ! i) = Inr (ys ! i)"
proof (induction xs arbitrary: ys i)
  case Nil
  then show ?case by simp
next
  case (Cons x xs)
  then show ?case by (cases i) (auto split: sum.splits)
qed

lemma map_raise_simple:
  assumes "set tc \<subseteq> set simple_types"
  shows "\<exists>codes. map_raise (\<lambda>typ. SimpleTraitCode_trait_code env h
                      (TraitCodeExtractor_init env h a (Single typ)) kw) tc = Inr codes"
proof -
  have "map_raise (\<lambda>typ. SimpleTraitCode_trait_code env h
            (TraitCodeExtractor_init env h a (Single typ)) kw) tc =
        Inr (map (\<lambda>typ. construct_function_call env (the (map_of classes typ)) []
                    (dict_update kw (present_items h a (validation_keys_get (Single typ))))) tc)"
  proof (rule map_raise_Inr)
    fix ty assume "ty \<in> set tc"
    then have st: "ty \<in> set simple_types" using assms by blast
    show "SimpleTraitCode_trait_code env h (TraitCodeExtractor_init env h a (Single ty)) kw =
          Inr (construct_function_call env (the (map_of classes ty)) []
                 (dict_update kw (present_items h a (validation_keys_get (Single ty)))))"
      using SimpleTraitCode_simple [OF st, of env h a kw]
      by (auto simp: init_Single [OF simple_type_nonempty [OF st]])
  qed
  then show ?thesis by blast
qed

subsection \<open>Node lookups and forwarded keys\<close>

lemma map_of_forward_key:
  "map_of (forward_key h a key name kw) =
     (case map_of (subtree (h ! a)) key of
        None \<Rightarrow> map_of kw
      | Some v \<Rightarrow> (map_of kw)(name \<mapsto> v))"
  by (simp add: forward_key_def map_of_dict_setitem split: option.splits)

lemma forward_key_same:
  "map_of (forward_key h a key name kw) name =
     (case map_of (subtree (h ! a)) key of None \<Rightarrow> map_of kw name | Some v \<Rightarrow> Some v)"
  by (simp add: map_of_forward_key split: option.splits)

lemma forward_key_other:
  "name' \<noteq> name \<Longrightarrow> map_of (forward_key h a key name kw) name' = map_of kw name'"
  by (simp add: map_of_forward_key split: option.splits)


lemma schema_contains_iff:
  "schema_contains h a key \<longleftrightarrow> (\<exists>v. schema_getitem h a key = Inr v)"
  by (simp add: schema_getitem_def schema_contains_def dict_contains_def dict_getitem_def
      split: option.splits)

subsection \<open>The store only grows\<close>

lemma extends_refl: "extends h h"
  by (simp add: extends_def)

lemma extends_length: "extends h h' \<Longrightarrow> length h \<le> length h'"
proof -
  assume "extends h h'"
  then have "length (take (length h) h') = length h" by (simp add: extends_def)
  then show ?thesis by simp
qed

lemma extends_nth: "extends h h' \<Longrightarrow> a < length h \<Longrightarrow> h' ! a = h ! a"
proof -
  assume e: "extends h h'" and a: "a < length h"
  have "take (length h) h' ! a = h' ! a" using a by simp
  then show ?thesis using e by (simp add: extends_def)
qed

lemma extends_trans: "extends h h1 \<Longrightarrow> extends h1 h2 \<Longrightarrow> extends h h2"
proof -
  assume a: "extends h h1" and b: "extends h1 h2"
  have le: "length h \<le> length h1" using a by (rule extends_length)
  have "take (length h) h2 = take (length h) (take (length h1) h2)"
    using le by (simp add: min_absorb1)
  also have "\<dots> = take (length h) h1" using b by (simp add: extends_def)
  also have "\<dots> = h" using a by (simp add: extends_def)
  finally show ?thesis by (simp add: extends_def)
qed

lemma extends_update: "extends h h' \<Longrightarrow> length h \<le> c \<Longrightarrow> extends h (h'[c := x])"
  by (simp add: extends_def)

lemma extends_append: "extends h (h @ xs)"
  by (simp add: extends_def)

lemma allocates_get_reference:
  assumes "allocates_only env" and "a < length h" and "get_reference env h a r = (res, h')"
  shows "extends h h' \<and> (\<forall>ref. res = Inr ref \<longrightarrow> ref < length h')"
proof -
  have "case get_reference env h a r of
               (Inl e, h') \<Rightarrow> extends h h'
             | (Inr ref, h') \<Rightarrow> extends h h' \<and> ref < length h'"
    using assms(1,2) by (simp add: allocates_only_def)
  then show ?thesis using assms(3) by (cases res) auto
qed

lemma allocates_make_child:
  assumes "allocates_only env" and "a < length h" and "make_child env h a sub = (child, h')"
  shows "extends h h' \<and> child < length h'"
proof -
  have "case make_child env h a sub of (child, h') \<Rightarrow> extends h h' \<and> child < length h'"
    using assms(1,2) by (simp add: allocates_only_def)
  then show ?thesis using assms(3) by simp
qed

lemma allocates_copy_node:
  assumes "allocates_only env" and "a < length h" and "copy_node env h a = (c, h')"
  shows "extends h h' \<and> length h \<le> c \<and> c < length h' \<and> h' ! c = h ! a"
proof -
  have "case copy_node env h a of
           (c, h') \<Rightarrow> extends h h' \<and> length h \<le> c \<and> c < length h' \<and> h' ! c = h ! a"
    using assms(1,2) by (simp add: allocates_only_def)
  then show ?thesis using assms(3) by simp
qed

lemma allocates_node_trait_code:
  assumes "allocates_only env" and "a < length h"
  shows "extends h (snd (node_trait_code env h a))"
  using assms by (simp add: allocates_only_def)

lemma RefTraitCode_frame:
  assumes env: "allocates_only env" and a: "schema self < length h"
  shows "extends h (snd (RefTraitCode_trait_code env h self kwargs))"
proof (cases "schema_getitem h (schema self) ''$ref''")
  case (Inl e)
  then show ?thesis by (simp add: RefTraitCode_trait_code_def extends_refl)
next
  case (Inr r)
  obtain res h1 where g: "get_reference env h (schema self) r = (res, h1)"
    by (cases "get_reference env h (schema self) r")
  have e1: "extends h h1" and valid: "\<forall>ref. res = Inr ref \<longrightarrow> ref < length h1"
    using allocates_get_reference [OF env a g] by simp_all
  show ?thesis
  proof (cases res)
    case (Inl e)
    then show ?thesis using Inr g e1 by (simp add: RefTraitCode_trait_code_def)
  next
    case ref: (Inr ref)
    show ?thesis
    proof (cases "is_object env h1 ref")
      case True
      then show ?thesis using Inr g ref e1 by (simp add: RefTraitCode_trait_code_def)
    next
      case False
      obtain c h2 where cp: "copy_node env h1 ref = (c, h2)"
        by (cases "copy_node env h1 ref")
      have r1: "ref < length h1" using valid ref by simp
      have e2: "extends h1 h2" and fresh: "length h1 \<le> c" and c2: "c < length h2"
        using allocates_copy_node [OF env r1 cp] by simp_all
      let ?h3 = "h2[c := (h2 ! c)\<lparr>metadata := metadata (h2 ! schema self)\<rparr>]"
      have "extends h1 ?h3" using e2 fresh by (rule extends_update)
      then have e3: "extends h ?h3" using e1 extends_trans by blast
      have "c < length ?h3" using c2 by simp
      then have "extends ?h3 (snd (node_trait_code env ?h3 c))"
        using env by (rule allocates_node_trait_code [rotated])
      then have "extends h (snd (node_trait_code env ?h3 c))"
        using e3 extends_trans by blast
      then show ?thesis
        using Inr g ref False cp by (simp add: RefTraitCode_trait_code_def)
    qed
  qed
qed

lemma child_trait_code_frame:
  assumes env: "allocates_only env" and a: "a < length h"
    and mc: "make_child env h a sub = (child, h1)"
  shows "extends h (snd (node_trait_code env h1 child))"
proof -
  have "extends h h1" and "child < length h1"
    using allocates_make_child [OF env a mc] by simp_all
  moreover from this(2) have "extends h1 (snd (node_trait_code env h1 child))"
    using env by (rule allocates_node_trait_code [rotated])
  ultimately show ?thesis using extends_trans by blast
qed

lemma ArrayTraitCode_frame:
  assumes env: "allocates_only env" and a: "schema self < length h"
  shows "extends h (snd (ArrayTraitCode_trait_code env h self kwargs))"
proof (cases "schema_getitem h (schema self) ''items''")
  case (Inl e)
  then show ?thesis by (simp add: ArrayTraitCode_trait_code_def extends_refl)
next
  case (Inr items)
  show ?thesis
  proof (cases "isinstance_list items")
    case True
    then show ?thesis using Inr by (simp add: ArrayTraitCode_trait_code_def extends_refl)
  next
    case False
    obtain child h1 where mc: "make_child env h (schema self) items = (child, h1)"
      by (cases "make_child env h (schema self) items")
    obtain res h2 where tc: "node_trait_code env h1 child = (res, h2)"
      by (cases "node_trait_code env h1 child")
    have "extends h h2" using child_trait_code_frame [OF env a mc] tc by simp
    then show ?thesis
      using Inr False mc tc by (cases res) (simp_all add: ArrayTraitCode_trait_code_def)
  qed
qed

lemma NotTraitCode_frame:
  assumes env: "allocates_only env" and a: "schema self < length h"
  shows "extends h (snd (NotTraitCode_trait_code env h self kwargs))"
proof (cases "schema_getitem h (schema self) ''not''")
  case (Inl e)
  then show ?thesis by (simp add: NotTraitCode_trait_code_def extends_refl)
next
  case (Inr v)
  obtain child h1 where mc: "make_child env h (schema self) v = (child, h1)"
    by (cases "make_child env h (schema self) v")
  obtain res h2 where tc: "node_trait_code env h1 child = (res, h2)"
    by (cases "node_trait_code env h1 child")
  have "extends h h2" using child_trait_code_frame [OF env a mc] tc by simp
  then show ?thesis
    using Inr mc tc by (cases res) (simp_all add: NotTraitCode_trait_code_def)
qed

lemma child_codes_frame:
  assumes env: "allocates_only env"
  shows "a < length h \<Longrightarrow> extends h (snd (child_codes env h a subs))"
proof (induction subs arbitrary: h)
  case Nil
  show ?case by (simp add: extends_refl)
next
  case (Cons sub subs)
  obtain child h1 where mc: "make_child env h a sub = (child, h1)"
    by (cases "make_child env h a sub")
  obtain res h2 where tc: "node_trait_code env h1 child = (res, h2)"
    by (cases "node_trait_code env h1 child")
  have e2: "extends h h2" using child_trait_code_frame [OF env Cons.prems mc] tc by simp
  show ?case
  proof (cases res)
    case (Inl e)
    then show ?thesis using mc tc e2 by simp
  next
    case (Inr code)
    have "a < length h2" using e2 Cons.prems extends_length by fastforce
    then have "extends h2 (snd (child_codes env h2 a subs))" by (rule Cons.IH)
    then have e3: "extends h (snd (child_codes env h2 a subs))"
      using e2 extends_trans by blast
    obtain res' h3 where cc: "child_codes env h2 a subs = (res', h3)"
      by (cases "child_codes env h2 a subs")
    show ?thesis using mc tc Inr cc e3 by (cases res') simp_all
  qed
qed

lemma composition_frame:
  assumes env: "allocates_only env" and a: "schema self < length h"
  shows "extends h (snd (composition_trait_code keyword name env h self kwargs))"
proof (cases "schema_getitem h (schema self) keyword")
  case (Inl e)
  then show ?thesis by (simp add: composition_trait_code_def extends_refl)
next
  case (Inr v)
  show ?thesis
  proof (cases "py_iter v")
    case (Inl e)
    then show ?thesis using Inr by (simp add: composition_trait_code_def extends_refl)
  next
    case subs: (Inr subs)
    obtain res h1 where cc: "child_codes env h (schema self) subs = (res, h1)"
      by (cases "child_codes env h (schema self) subs")
    have "extends h h1" using child_codes_frame [OF env a, of subs] cc by simp
    then show ?thesis
      using Inr subs cc by (cases res) (simp_all add: composition_trait_code_def)
  qed
qed

lemma trait_code_frame:
  assumes env: "allocates_only env" and a: "schema self < length h"
  shows "extends h (snd (trait_code k env h self kwargs))"
proof (cases k)
  case RefTraitCode
  then show ?thesis using RefTraitCode_frame [OF env a] by simp
next
  case ArrayTraitCode
  then show ?thesis using ArrayTraitCode_frame [OF env a] by simp
next
  case AnyOfTraitCode
  then show ?thesis using composition_frame [OF env a] by (simp add: AnyOfTraitCode_trait_code_def)
next
  case OneOfTraitCode
  then show ?thesis using composition_frame [OF env a] by (simp add: OneOfTraitCode_trait_code_def)
next
  case AllOfTraitCode
  then show ?thesis using composition_frame [OF env a] by (simp add: AllOfTraitCode_trait_code_def)
next
  case NotTraitCode
  then show ?thesis using NotTraitCode_frame [OF env a] by simp
qed (simp_all add: extends_refl)

subsection \<open>The trait code depends on the node only\<close>

lemma same_node_extends:
  assumes "same_node h a h' a'" and "extends h h1" and "extends h' h1'"
  shows "same_node h1 a h1' a'"
proof -
  have a: "a < length h" and a': "a' < length h'" and eq: "h ! a = h' ! a'"
    using assms(1) by (simp_all add: same_node_def)
  have "a < length h1" using a extends_length [OF assms(2)] by simp
  moreover have "a' < length h1'" using a' extends_length [OF assms(3)] by simp
  moreover have "h1 ! a = h1' ! a'"
    using extends_nth [OF assms(2) a] extends_nth [OF assms(3) a'] eq by simp
  ultimately show ?thesis by (simp add: same_node_def)
qed

lemma reads_schema_type:
  "reads_node_only env \<Longrightarrow> same_node h a h' a' \<Longrightarrow> schema_type env h a = schema_type env h' a'"
  by (simp add: reads_node_only_def)

lemma reads_is_object:
  "reads_node_only env \<Longrightarrow> same_node h a h' a' \<Longrightarrow> is_object env h a = is_object env h' a'"
  by (simp add: reads_node_only_def)

lemma reads_classname:
  "reads_node_only env \<Longrightarrow> same_node h a h' a' \<Longrightarrow> classname env h a = classname env h' a'"
  by (simp add: reads_node_only_def)

lemma reads_node_trait_code:
  "reads_node_only env \<Longrightarrow> same_node h a h' a' \<Longrightarrow>
   fst (node_trait_code env h a) = fst (node_trait_code env h' a')"
  by (simp add: reads_node_only_def)

lemma reads_get_reference:
  assumes "reads_node_only env" and "same_node h a h' a'"
    and "get_reference env h a r = (res, h1)" and "get_reference env h' a' r = (res', h1')"
  shows "(\<forall>e. res = Inl e \<longrightarrow> res' = Inl e) \<and>
         (\<forall>x. res = Inr x \<longrightarrow> (\<exists>x'. res' = Inr x' \<and> h1 ! x = h1' ! x'))"
proof -
  have "case (get_reference env h a r, get_reference env h' a' r) of
               ((Inl e, h1), (Inl e', h1')) \<Rightarrow> e = e'
             | ((Inr x, h1), (Inr x', h1')) \<Rightarrow> h1 ! x = h1' ! x'
             | _ \<Rightarrow> False"
    using assms(1,2) by (simp add: reads_node_only_def)
  then show ?thesis using assms(3,4) by (cases res; cases res') simp_all
qed

lemma reads_make_child:
  assumes "reads_node_only env" and "same_node h a h' a'"
    and "make_child env h a sub = (c, h1)" and "make_child env h' a' sub = (c', h1')"
  shows "h1 ! c = h1' ! c'"
proof -
  have "case (make_child env h a sub, make_child env h' a' sub) of
                 ((c, h1), (c', h1')) \<Rightarrow> h1 ! c = h1' ! c'"
    using assms(1,2) by (simp add: reads_node_only_def)
  then show ?thesis using assms(3,4) by simp
qed

lemma same_node_getitem:
  "same_node h a h' a' \<Longrightarrow> schema_getitem h a key = schema_getitem h' a' key"
  by (simp add: same_node_def schema_getitem_def)

lemma same_node_contains:
  "same_node h a h' a' \<Longrightarrow> schema_contains h a key = schema_contains h' a' key"
  by (simp add: same_node_def schema_contains_def)

lemma SimpleTraitCode_pure:
  assumes "typecode self = typecode self'" and "h ! schema self = h' ! schema self'"
  shows "SimpleTraitCode_trait_code env h self kw = SimpleTraitCode_trait_code env h' self' kw"
  using assms by (simp add: SimpleTraitCode_trait_code_def present_items_def split: sum.splits)

lemma init_pure:
  assumes "reads_node_only env" and "same_node h a h' a'"
  shows "typecode (TraitCodeExtractor_init env h a tc) = typecode (TraitCodeExtractor_init env h' a' tc)"
  using reads_schema_type [OF assms] by (simp add: TraitCodeExtractor_init_def)

lemma init_schema: "schema (TraitCodeExtractor_init env h a tc) = a"
  by (simp add: TraitCodeExtractor_init_def)

lemma CompoundTraitCode_pure:
  assumes reads: "reads_node_only env" and same: "same_node h (schema self) h' (schema self')"
    and tc: "typecode self = typecode self'"
  shows "CompoundTraitCode_trait_code env h self kw = CompoundTraitCode_trait_code env h' self' kw"
proof -
  have eq: "h ! schema self = h' ! schema self'" using same by (simp add: same_node_def)
  have branch: "SimpleTraitCode_trait_code env h
                  (TraitCodeExtractor_init env h (schema self) (Single x)) kw' =
                SimpleTraitCode_trait_code env h'
                  (TraitCodeExtractor_init env h' (schema self') (Single x)) kw'" for x kw'
    by (rule SimpleTraitCode_pure) (simp_all add: init_pure [OF reads same] init_schema eq)
  show ?thesis
    unfolding CompoundTraitCode_trait_code_def tc branch ..
qed

lemma check_pure:
  assumes reads: "reads_node_only env" and same: "same_node h (schema self) h' (schema self')"
    and tc: "typecode self = typecode self'"
  shows "check k env h self = check k env h' self'"
  using tc reads_schema_type [OF reads same] same_node_contains [OF same]
  by (cases k)
     (simp_all add: CompoundTraitCode_check_def RefTraitCode_check_def EnumTraitCode_check_def
        ArrayTraitCode_check_def AnyOfTraitCode_check_def OneOfTraitCode_check_def
        AllOfTraitCode_check_def NotTraitCode_check_def ObjectTraitCode_check_def
        split: sum.splits)

lemma child_trait_code_pure:
  assumes alloc: "allocates_only env" and reads: "reads_node_only env"
    and same: "same_node h a h' a'"
    and mc: "make_child env h a sub = (c, h1)" and mc': "make_child env h' a' sub = (c', h1')"
  shows "fst (node_trait_code env h1 c) = fst (node_trait_code env h1' c')"
proof -
  have a: "a < length h" and a': "a' < length h'" using same by (simp_all add: same_node_def)
  have "c < length h1" using allocates_make_child [OF alloc a mc] by simp
  moreover have "c' < length h1'" using allocates_make_child [OF alloc a' mc'] by simp
  moreover have "h1 ! c = h1' ! c'" using reads_make_child [OF reads same mc mc'] .
  ultimately have "same_node h1 c h1' c'" by (simp add: same_node_def)
  then show ?thesis using reads by (rule reads_node_trait_code [rotated])
qed

lemma RefTraitCode_pure:
  assumes alloc: "allocates_only env" and reads: "reads_node_only env"
    and same: "same_node h (schema self) h' (schema self')"
  shows "fst (RefTraitCode_trait_code env h self kw) = fst (RefTraitCode_trait_code env h' self' kw)"
proof -
  let ?a = "schema self" and ?a' = "schema self'"
  have a: "?a < length h" and a': "?a' < length h'" and eq: "h ! ?a = h' ! ?a'"
    using same by (simp_all add: same_node_def)
  have gi: "schema_getitem h' ?a' ''$ref'' = schema_getitem h ?a ''$ref''"
    using same_node_getitem [OF same] by simp
  show ?thesis
  proof (cases "schema_getitem h ?a ''$ref''")
    case (Inl e)
    then show ?thesis using gi by (simp add: RefTraitCode_trait_code_def)
  next
    case (Inr r)
    obtain res h1 where g: "get_reference env h ?a r = (res, h1)"
      by (cases "get_reference env h ?a r")
    obtain res' h1' where g': "get_reference env h' ?a' r = (res', h1')"
      by (cases "get_reference env h' ?a' r")
    have e1: "extends h h1" and v1: "\<forall>ref. res = Inr ref \<longrightarrow> ref < length h1"
      using allocates_get_reference [OF alloc a g] by simp_all
    have e1': "extends h' h1'" and v1': "\<forall>ref. res' = Inr ref \<longrightarrow> ref < length h1'"
      using allocates_get_reference [OF alloc a' g'] by simp_all
    have rel: "(\<forall>e. res = Inl e \<longrightarrow> res' = Inl e) \<and>
               (\<forall>x. res = Inr x \<longrightarrow> (\<exists>x'. res' = Inr x' \<and> h1 ! x = h1' ! x'))"
      using reads_get_reference [OF reads same g g'] .
    show ?thesis
    proof (cases res)
      case (Inl e)
      then have "res' = Inl e" using rel by simp
      then show ?thesis using Inr gi g g' Inl by (simp add: RefTraitCode_trait_code_def)
    next
      case x: (Inr x)
      then obtain x' where x': "res' = Inr x'" and xs: "h1 ! x = h1' ! x'" using rel by auto
      have xv: "x < length h1" using v1 x by simp
      have xv': "x' < length h1'" using v1' x' by simp
      have same1: "same_node h1 x h1' x'" using xv xv' xs by (simp add: same_node_def)
      have obj: "is_object env h1' x' = is_object env h1 x"
        using reads_is_object [OF reads same1] by simp
      have cls: "classname env h1' x' = classname env h1 x"
        using reads_classname [OF reads same1] by simp
      show ?thesis
      proof (cases "is_object env h1 x")
        case True
        then show ?thesis
          using Inr gi g g' x x' obj cls by (simp add: RefTraitCode_trait_code_def)
      next
        case False
        obtain c h2 where cp: "copy_node env h1 x = (c, h2)" by (cases "copy_node env h1 x")
        obtain c' h2' where cp': "copy_node env h1' x' = (c', h2')"
          by (cases "copy_node env h1' x'")
        have e2: "extends h1 h2" and c2: "c < length h2" and cv: "h2 ! c = h1 ! x"
          using allocates_copy_node [OF alloc xv cp] by simp_all
        have e2': "extends h1' h2'" and c2': "c' < length h2'" and cv': "h2' ! c' = h1' ! x'"
          using allocates_copy_node [OF alloc xv' cp'] by simp_all
        have m: "h2 ! ?a = h ! ?a"
          using extends_nth [OF extends_trans [OF e1 e2] a] .
        have m': "h2' ! ?a' = h' ! ?a'"
          using extends_nth [OF extends_trans [OF e1' e2'] a'] .
        let ?h3 = "h2[c := (h2 ! c)\<lparr>metadata := metadata (h2 ! ?a)\<rparr>]"
        let ?h3' = "h2'[c' := (h2' ! c')\<lparr>metadata := metadata (h2' ! ?a')\<rparr>]"
        have "?h3 ! c = ?h3' ! c'" using c2 c2' cv cv' xs m m' eq by simp
        then have "same_node ?h3 c ?h3' c'" using c2 c2' by (simp add: same_node_def)
        then have "fst (node_trait_code env ?h3 c) = fst (node_trait_code env ?h3' c')"
          using reads by (rule reads_node_trait_code [rotated])
        then show ?thesis
          using Inr gi g g' x x' obj False cp cp' by (simp add: RefTraitCode_trait_code_def)
      qed
    qed
  qed
qed

lemma forward_key_pure:
  "h ! a = h' ! a' \<Longrightarrow> forward_key h a key name kw = forward_key h' a' key name kw"
  by (simp add: forward_key_def)

lemma ArrayTraitCode_pure:
  assumes alloc: "allocates_only env" and reads: "reads_node_only env"
    and same: "same_node h (schema self) h' (schema self')"
  shows "fst (ArrayTraitCode_trait_code env h self kw) = fst (ArrayTraitCode_trait_code env h' self' kw)"
proof -
  let ?a = "schema self" and ?a' = "schema self'"
  have eq: "h ! ?a = h' ! ?a'" using same by (simp add: same_node_def)
  have gi: "schema_getitem h' ?a' ''items'' = schema_getitem h ?a ''items''"
    using same_node_getitem [OF same] by simp
  have fk: "forward_key h' ?a' key name kw' = forward_key h ?a key name kw'" for key name kw'
    using forward_key_pure [OF eq] by simp
  show ?thesis
  proof (cases "schema_getitem h ?a ''items''")
    case (Inl e)
    then show ?thesis using gi by (simp add: ArrayTraitCode_trait_code_def)
  next
    case (Inr items)
    show ?thesis
    proof (cases "isinstance_list items")
      case True
      then show ?thesis using Inr gi by (simp add: ArrayTraitCode_trait_code_def)
    next
      case False
      obtain c h1 where mc: "make_child env h ?a items = (c, h1)"
        by (cases "make_child env h ?a items")
      obtain c' h1' where mc': "make_child env h' ?a' items = (c', h1')"
        by (cases "make_child env h' ?a' items")
      obtain res h2 where tc: "node_trait_code env h1 c = (res, h2)"
        by (cases "node_trait_code env h1 c")
      obtain res' h2' where tc': "node_trait_code env h1' c' = (res', h2')"
        by (cases "node_trait_code env h1' c'")
      have "res' = res"
        using child_trait_code_pure [OF alloc reads same mc mc'] tc tc' by simp
      then show ?thesis
        using Inr gi False mc mc' tc tc' fk
        by (cases res) (simp_all add: ArrayTraitCode_trait_code_def)
    qed
  qed
qed

lemma NotTraitCode_pure:
  assumes alloc: "allocates_only env" and reads: "reads_node_only env"
    and same: "same_node h (schema self) h' (schema self')"
  shows "fst (NotTraitCode_trait_code env h self kw) = fst (NotTraitCode_trait_code env h' self' kw)"
proof -
  let ?a = "schema self" and ?a' = "schema self'"
  have gi: "schema_getitem h' ?a' ''not'' = schema_getitem h ?a ''not''"
    using same_node_getitem [OF same] by simp
  show ?thesis
  proof (cases "schema_getitem h ?a ''not''")
    case (Inl e)
    then show ?thesis using gi by (simp add: NotTraitCode_trait_code_def)
  next
    case (Inr v)
    obtain c h1 where mc: "make_child env h ?a v = (c, h1)"
      by (cases "make_child env h ?a v")
    obtain c' h1' where mc': "make_child env h' ?a' v = (c', h1')"
      by (cases "make_child env h' ?a' v")
    obtain res h2 where tc: "node_trait_code env h1 c = (res, h2)"
      by (cases "node_trait_code env h1 c")
    obtain res' h2' where tc': "node_trait_code env h1' c' = (res', h2')"
      by (cases "node_trait_code env h1' c'")
    have "res' = res"
      using child_trait_code_pure [OF alloc reads same mc mc'] tc tc' by simp
    then show ?thesis
      using Inr gi mc mc' tc tc' by (cases res) (simp_all add: NotTraitCode_trait_code_def)
  qed
qed

lemma child_codes_pure:
  assumes alloc: "allocates_only env" and reads: "reads_node_only env"
  shows "same_node h a h' a' \<Longrightarrow>
         fst (child_codes env h a subs) = fst (child_codes env h' a' subs)"
proof (induction subs arbitrary: h h')
  case Nil
  show ?case by simp
next
  case (Cons sub subs)
  have a: "a < length h" and a': "a' < length h'"
    using Cons.prems by (simp_all add: same_node_def)
  obtain c h1 where mc: "make_child env h a sub = (c, h1)"
    by (cases "make_child env h a sub")
  obtain c' h1' where mc': "make_child env h' a' sub = (c', h1')"
    by (cases "make_child env h' a' sub")
  obtain res h2 where tc: "node_trait_code env h1 c = (res, h2)"
    by (cases "node_trait_code env h1 c")
  obtain res' h2' where tc': "node_trait_code env h1' c' = (res', h2')"
    by (cases "node_trait_code env h1' c'")
  have res: "res' = res"
    using child_trait_code_pure [OF alloc reads Cons.prems mc mc'] tc tc' by simp
  have e2: "extends h h2" using child_trait_code_frame [OF alloc a mc] tc by simp
  have e2': "extends h' h2'" using child_trait_code_frame [OF alloc a' mc'] tc' by simp
  have "same_node h2 a h2' a'" using Cons.prems e2 e2' by (rule same_node_extends)
  then have ih: "fst (child_codes env h2 a subs) = fst (child_codes env h2' a' subs)"
    by (rule Cons.IH)
  obtain r3 h3 where cc: "child_codes env h2 a subs = (r3, h3)"
    by (cases "child_codes env h2 a subs")
  obtain r3' h3' where cc': "child_codes env h2' a' subs = (r3', h3')"
    by (cases "child_codes env h2' a' subs")
  have "r3' = r3" using ih cc cc' by simp
  then show ?case
    using mc mc' tc tc' res cc cc' by (cases res; cases r3) simp_all
qed

lemma composition_pure:
  assumes alloc: "allocates_only env" and reads: "reads_node_only env"
    and same: "same_node h (schema self) h' (schema self')"
  shows "fst (composition_trait_code keyword name env h self kw) =
         fst (composition_trait_code keyword name env h' self' kw)"
proof -
  let ?a = "schema self" and ?a' = "schema self'"
  have gi: "schema_getitem h' ?a' keyword = schema_getitem h ?a keyword"
    using same_node_getitem [OF same] by simp
  show ?thesis
  proof (cases "schema_getitem h ?a keyword")
    case (Inl e)
    then show ?thesis using gi by (simp add: composition_trait_code_def)
  next
    case (Inr v)
    show ?thesis
    proof (cases "py_iter v")
      case (Inl e)
      then show ?thesis using Inr gi by (simp add: composition_trait_code_def)
    next
      case subs: (Inr subs)
      obtain res h1 where cc: "child_codes env h ?a subs = (res, h1)"
        by (cases "child_codes env h ?a subs")
      obtain res' h1' where cc': "child_codes env h' ?a' subs = (res', h1')"
        by (cases "child_codes env h' ?a' subs")
      have "res' = res" using child_codes_pure [OF alloc reads same, of subs] cc cc' by simp
      then show ?thesis
        using Inr gi subs cc cc' by (cases res) (simp_all add: composition_trait_code_def)
    qed
  qed
qed

lemma trait_code_pure:
  assumes alloc: "allocates_only env" and reads: "reads_node_only env"
    and same: "same_node h (schema self) h' (schema self')"
    and tc: "typecode self = typecode self'"
  shows "fst (trait_code k env h self kw) = fst (trait_code k env h' self' kw)"
proof (cases k)
  case SimpleTraitCode
  then show ?thesis
    using SimpleTraitCode_pure [OF tc, of h h' env kw] same by (simp add: same_node_def)
next
  case CompoundTraitCode
  then show ?thesis using CompoundTraitCode_pure [OF reads same tc] by simp
next
  case RefTraitCode
  then show ?thesis using RefTraitCode_pure [OF alloc reads same] by simp
next
  case EnumTraitCode
  then show ?thesis
    using same_node_getitem [OF same] by (simp add: EnumTraitCode_trait_code_def)
next
  case ArrayTraitCode
  then show ?thesis using ArrayTraitCode_pure [OF alloc reads same] by simp
next
  case AnyOfTraitCode
  then show ?thesis
    using composition_pure [OF alloc reads same] by (simp add: AnyOfTraitCode_trait_code_def)
next
  case OneOfTraitCode
  then show ?thesis
    using composition_pure [OF alloc reads same] by (simp add: OneOfTraitCode_trait_code_def)
next
  case AllOfTraitCode
  then show ?thesis
    using composition_pure [OF alloc reads same] by (simp add: AllOfTraitCode_trait_code_def)
next
  case NotTraitCode
  then show ?thesis using NotTraitCode_pure [OF alloc reads same] by simp
next
  case ObjectTraitCode
  then show ?thesis by (simp add: ObjectTraitCode_trait_code_def)
qed

subsection \<open>The chain and the node class\<close>

lemma first_match_pure:
  assumes reads: "reads_node_only env" and same: "same_node h (schema self) h' (schema self')"
    and tc: "typecode self = typecode self'"
  shows "first_match ks env h self = first_match ks env h' self'"
  by (induction ks) (simp_all add: check_pure [OF reads same tc])

lemma chain_frame:
  assumes "allocates_only env" and "a < length h"
  shows "extends h (snd (chain env h a))"
proof -
  let ?self = "TraitCodeExtractor_init env h a Undefined"
  have a: "schema ?self < length h" using assms(2) by (simp add: init_schema)
  show ?thesis
  proof (cases "first_match priority_order env h ?self")
    case None
    then show ?thesis by (simp add: chain_def extends_refl)
  next
    case (Some k)
    then show ?thesis
      using trait_code_frame [OF assms(1) a, of k] by (simp add: chain_def)
  qed
qed

lemma chain_pure:
  assumes alloc: "allocates_only env" and reads: "reads_node_only env"
    and same: "same_node h a h' a'"
  shows "fst (chain env h a) = fst (chain env h' a')"
proof -
  let ?self = "TraitCodeExtractor_init env h a Undefined"
  let ?self' = "TraitCodeExtractor_init env h' a' Undefined"
  have s: "same_node h (schema ?self) h' (schema ?self')" using same by (simp add: init_schema)
  have tc: "typecode ?self = typecode ?self'" using init_pure [OF reads same] .
  have fm: "first_match priority_order env h' ?self' = first_match priority_order env h ?self"
    using first_match_pure [OF reads s tc] by simp
  have po: "property_options (h' ! a') = property_options (h ! a)"
    using same by (simp add: same_node_def)
  show ?thesis
  proof (cases "first_match priority_order env h ?self")
    case None
    then show ?thesis using fm by (simp add: chain_def)
  next
    case (Some k)
    then show ?thesis
      using fm po trait_code_pure [OF alloc reads s tc, of k] by (simp add: chain_def)
  qed
qed

lemma resolve_cases:
  "resolve h a r = (res, h1) \<Longrightarrow>
   (\<exists>e. res = Inl e \<and> h1 = h) \<or> (\<exists>nd. res = Inr (length h) \<and> h1 = h @ [nd])"
  by (auto simp: resolve_def Let_def split: json.splits list.splits if_splits option.splits)

lemma resolve_node_only:
  assumes "h ! a = h' ! a'"
  shows "fst (resolve h' a' r) = map_sum id (\<lambda>x. length h') (fst (resolve h a r)) \<and>
         (\<forall>x x'. fst (resolve h a r) = Inr x \<and> fst (resolve h' a' r) = Inr x' \<longrightarrow>
            snd (resolve h a r) ! x = snd (resolve h' a' r) ! x')"
  using assms
  by (auto simp: resolve_def Let_def split: json.splits list.splits if_splits option.splits)

lemma JSONSchema_env_allocates:
  assumes "\<And>h a. a < length h \<Longrightarrow> extends h (snd (tc h a))"
  shows "allocates_only (JSONSchema_env tc)"
proof -
  have ref: "case resolve h a r of
               (Inl e, h') \<Rightarrow> extends h h'
             | (Inr ref, h') \<Rightarrow> extends h h' \<and> ref < length h'" for h a r
  proof -
    obtain res h1 where r: "resolve h a r = (res, h1)" by (cases "resolve h a r")
    show ?thesis using resolve_cases [OF r] r by (auto simp: extends_refl extends_append)
  qed
  have child: "case new_child h a sub of (child, h') \<Rightarrow> extends h h' \<and> child < length h'"
    for h a sub
    by (simp add: new_child_def Let_def extends_append)
  have cp: "case new_copy h a of
           (c, h') \<Rightarrow> extends h h' \<and> length h \<le> c \<and> c < length h' \<and> h' ! c = h ! a" for h a
    by (simp add: new_copy_def extends_append)
  show ?thesis
    unfolding allocates_only_def
    using ref child cp assms by (simp add: JSONSchema_env_def)
qed

lemma JSONSchema_env_reads:
  assumes "\<And>h a h' a'. same_node h a h' a' \<Longrightarrow> fst (tc h a) = fst (tc h' a')"
  shows "reads_node_only (JSONSchema_env tc)"
proof -
  have ref: "case (resolve h a r, resolve h' a' r) of
               ((Inl e, h1), (Inl e', h1')) \<Rightarrow> e = e'
             | ((Inr x, h1), (Inr x', h1')) \<Rightarrow> h1 ! x = h1' ! x'
             | _ \<Rightarrow> False" if "h ! a = h' ! a'" for h a h' a' r
  proof -
    obtain res h1 where r: "resolve h a r = (res, h1)" by (cases "resolve h a r")
    obtain res' h1' where r': "resolve h' a' r = (res', h1')" by (cases "resolve h' a' r")
    show ?thesis
      using resolve_node_only [OF that, of r] r r' by (cases res; cases res') auto
  qed
  have child: "case (new_child h a sub, new_child h' a' sub) of
                 ((c, h1), (c', h1')) \<Rightarrow> h1 ! c = h1' ! c'" if "h ! a = h' ! a'" for h a h' a' sub
    using that by (simp add: new_child_def Let_def)
  show ?thesis
    unfolding reads_node_only_def
    using ref child assms by (simp add: JSONSchema_env_def same_node_def)
qed

lemma JSONSchema_trait_code_frame_pure:
  "(\<forall>h a. a < length h \<longrightarrow> extends h (snd (JSONSchema_trait_code depth h a))) \<and>
   (\<forall>h a h' a'. same_node h a h' a' \<longrightarrow>
      fst (JSONSchema_trait_code depth h a) = fst (JSONSchema_trait_code depth h' a'))"
proof (induction depth)
  case 0
  show ?case by (simp add: extends_refl)
next
  case (Suc depth)
  have alloc: "allocates_only (JSONSchema_env (JSONSchema_trait_code depth))"
    using Suc.IH by (intro JSONSchema_env_allocates) blast
  have reads: "reads_node_only (JSONSchema_env (JSONSchema_trait_code depth))"
    using Suc.IH by (intro JSONSchema_env_reads) blast
  show ?case
    using chain_frame [OF alloc] chain_pure [OF alloc reads] by simp
qed

lemma JSONSchema_env_well_behaved:
  "allocates_only (JSONSchema_env (JSONSchema_trait_code depth)) \<and>
   reads_node_only (JSONSchema_env (JSONSchema_trait_code depth))"
  using JSONSchema_trait_code_frame_pure [of depth]
  by (intro conjI JSONSchema_env_allocates JSONSchema_env_reads) blast+

text \<open>
  The copy is what keeps the resolved node intact: where the resolver returns a node
  that is already in the store and \<open>copy\<close> returns the object itself, the reference
  extractor overwrites the metadata of that node.
\<close>

lemma RefTraitCode_without_copy:
  "snd (RefTraitCode_trait_code no_copy_env [alias_node, name_node]
          \<lparr>schema = 0, typecode = Undefined\<rparr> []) ! 1 =
     name_node\<lparr>metadata := [(''description'', JStr ''everyone'')]\<rparr> \<and>
   metadata name_node = []"
  by code_simp

lemma object_not_simple: "''object'' \<notin> set simple_types"
  by (simp add: simple_types_def)

subsection \<open>The claims\<close>

text \<open>
  C3. An extractor whose typecode is one of the five simple type names matches as a
  simple scalar, and its trait code is a call of the constructor that \<open>classes\<close> gives
  for the type, with no positional argument. The keyword arguments are those passed
  in, updated with the validation keys of the type that the node holds; for \<open>number\<close>
  and \<open>integer\<close> each of \<open>minimum\<close>, \<open>exclusiveMinimum\<close>, \<open>maximum\<close>, \<open>exclusiveMaximum\<close> and
  \<open>multipleOf\<close> present on the node is a keyword argument with the node's value.
\<close>

theorem SimpleTraitCode_scalar:
  assumes "typecode self = Single t" and "t \<in> set simple_types"
  shows "SimpleTraitCode_check self \<and>
         (\<exists>cls kw. map_of classes t = Some cls \<and>
            kw = dict_update kwargs (present_items h (schema self) (validation_keys_get (Single t))) \<and>
            SimpleTraitCode_trait_code env h self kwargs = Inr (construct_function_call env cls [] kw) \<and>
            (t \<in> {''number'', ''integer''} \<longrightarrow>
               (\<forall>key \<in> set [''minimum'', ''exclusiveMinimum'', ''maximum'', ''exclusiveMaximum'',
                              ''multipleOf''].
                  \<forall>v. schema_getitem h (schema self) key = Inr v \<longrightarrow> map_of kw key = Some v)))"
proof -
  obtain cls where cls: "map_of classes t = Some cls"
    using classes_simple [OF assms(2)] by blast
  let ?kw = "dict_update kwargs (present_items h (schema self) (validation_keys_get (Single t)))"
  have chk: "SimpleTraitCode_check self" using assms by simp
  have code: "SimpleTraitCode_trait_code env h self kwargs = Inr (construct_function_call env cls [] ?kw)"
    by (simp add: SimpleTraitCode_trait_code_def assms(1) cls)
  have fwd: "map_of ?kw key = Some v"
    if "t \<in> {''number'', ''integer''}"
      and "key \<in> set [''minimum'', ''exclusiveMinimum'', ''maximum'', ''exclusiveMaximum'', ''multipleOf'']"
      and "schema_getitem h (schema self) key = Inr v" for key v
  proof -
    have "map_of (subtree (h ! schema self)) key = Some v"
      using that(3) by (simp add: schema_getitem_def dict_getitem_def split: option.splits)
    moreover have "key \<in> set (validation_keys_get (Single t))"
      using that(1,2) validation_keys_numeric [OF that(1)] by simp
    ultimately show ?thesis by (rule dict_update_present [rotated])
  qed
  show ?thesis using chk cls code fwd by blast
qed

theorem SimpleTraitCode_scalar_witness:
  "typecode \<lparr>schema = 0, typecode = Single ''integer''\<rparr> = Single ''integer'' \<and>
   ''integer'' \<in> set simple_types \<and>
   SimpleTraitCode_check \<lparr>schema = 0, typecode = Single ''integer''\<rparr> \<and>
   SimpleTraitCode_trait_code example_env [age_node] \<lparr>schema = 0, typecode = Single ''integer''\<rparr>
       [(''allow_undefined'', JBool False)] =
     Inr ''jst.JSONInteger(allow_undefined=False, minimum=0, maximum=120)''"
  using SimpleTraitCode_scalar [of "\<lparr>schema = 0, typecode = Single ''integer''\<rparr>" "''integer''"
          "[(''allow_undefined'', JBool False)]" "[age_node]" example_env]
  by (simp add: simple_types_def classes_def validation_keys_def present_items_def age_node_def
        example_env_def JSONSchema_env_def render_call_def dict_setitem_def int_repr_def
        nat_repr.simps schema_getitem_def dict_getitem_def)

text \<open>
  C5, as amended. A node of type \<open>object\<close> that has none of the keys \<open>$ref\<close>, \<open>enum\<close>,
  \<open>anyOf\<close>, \<open>oneOf\<close>, \<open>allOf\<close> and \<open>not\<close> is matched by no extractor before the object
  extractor, and computing its trait code fails with \<open>NotImplementedError\<close> naming
  anonymous objects: no declaration is emitted and the store is unchanged. The object
  extractor itself raises this error on every node and for every options.
\<close>

theorem ObjectTraitCode_anonymous:
  assumes "schema_type env h a = Single ''object''"
    and "\<forall>key \<in> set [''$ref'', ''enum'', ''anyOf'', ''oneOf'', ''allOf'', ''not''].
           \<not> schema_contains h a key"
  shows "ObjectTraitCode_check (TraitCodeExtractor_init env h a Undefined) \<and>
         first_match priority_order env h (TraitCodeExtractor_init env h a Undefined) =
           Some ObjectTraitCode \<and>
         chain env h a = (Inl (NotImplementedError ''Anonymous Objects''), h) \<and>
         ObjectTraitCode_trait_code env h self kwargs =
           Inl (NotImplementedError ''Anonymous Objects'')"
proof -
  let ?self = "TraitCodeExtractor_init env h a Undefined"
  have tc: "typecode ?self = Single ''object''" and sc: "schema ?self = a"
    using assms(1) by (simp_all add: TraitCodeExtractor_init_def)
  have keys: "\<not> schema_contains h a ''$ref''" "\<not> schema_contains h a ''enum''"
    "\<not> schema_contains h a ''anyOf''" "\<not> schema_contains h a ''oneOf''"
    "\<not> schema_contains h a ''allOf''" "\<not> schema_contains h a ''not''"
    using assms(2) by simp_all
  have chk: "ObjectTraitCode_check ?self" using tc by (simp add: ObjectTraitCode_check_def)
  have simple: "\<not> SimpleTraitCode_check ?self" using tc object_not_simple by simp
  have compound: "CompoundTraitCode_check ?self = Inr False"
    using tc by (simp add: CompoundTraitCode_check_def)
  have array: "\<not> ArrayTraitCode_check env h ?self"
    using assms(1) sc by (simp add: ArrayTraitCode_check_def)
  have fm: "first_match priority_order env h ?self = Some ObjectTraitCode"
    using keys chk simple compound array sc
    by (simp add: priority_order_def RefTraitCode_check_def EnumTraitCode_check_def
          AnyOfTraitCode_check_def OneOfTraitCode_check_def AllOfTraitCode_check_def
          NotTraitCode_check_def)
  have run: "chain env h a = (Inl (NotImplementedError ''Anonymous Objects''), h)"
    using fm by (simp add: chain_def ObjectTraitCode_trait_code_def)
  show ?thesis using chk fm run by (simp add: ObjectTraitCode_trait_code_def)
qed

theorem ObjectTraitCode_anonymous_witness:
  "schema_type example_env [inline_object_node] 0 = Single ''object'' \<and>
   \<not> schema_contains [inline_object_node] 0 ''$ref'' \<and>
   \<not> schema_contains [inline_object_node] 0 ''enum'' \<and>
   \<not> schema_contains [inline_object_node] 0 ''anyOf'' \<and>
   \<not> schema_contains [inline_object_node] 0 ''oneOf'' \<and>
   \<not> schema_contains [inline_object_node] 0 ''allOf'' \<and>
   \<not> schema_contains [inline_object_node] 0 ''not'' \<and>
   chain example_env [inline_object_node] 0 =
     (Inl (NotImplementedError ''Anonymous Objects''), [inline_object_node])"
proof -
  have ty: "schema_type example_env [inline_object_node] 0 = Single ''object''" by code_simp
  have k1: "\<not> schema_contains [inline_object_node] 0 ''$ref''" by code_simp
  have k2: "\<not> schema_contains [inline_object_node] 0 ''enum''" by code_simp
  have k3: "\<not> schema_contains [inline_object_node] 0 ''anyOf''" by code_simp
  have k4: "\<not> schema_contains [inline_object_node] 0 ''oneOf''" by code_simp
  have k5: "\<not> schema_contains [inline_object_node] 0 ''allOf''" by code_simp
  have k6: "\<not> schema_contains [inline_object_node] 0 ''not''" by code_simp
  have keys: "\<forall>key \<in> set [''$ref'', ''enum'', ''anyOf'', ''oneOf'', ''allOf'', ''not''].
                \<not> schema_contains [inline_object_node] 0 key"
    using k1 k2 k3 k4 k5 k6 by simp
  have "chain example_env [inline_object_node] 0 =
          (Inl (NotImplementedError ''Anonymous Objects''), [inline_object_node])"
    using ObjectTraitCode_anonymous [OF ty keys] by simp
  then show ?thesis using ty k1 k2 k3 k4 k5 k6 by simp
qed

text \<open>
  The claim as stated, for every node of type \<open>object\<close>, fails on a node that also has
  an \<open>enum\<close>: the object extractor's check holds for it, but the enum extractor comes
  first in the chain and the trait code is an enum declaration.
\<close>

theorem ObjectTraitCode_anonymous_counterexample:
  "schema_type example_env [object_enum_node] 0 = Single ''object'' \<and>
   ObjectTraitCode_check (TraitCodeExtractor_init example_env [object_enum_node] 0 Undefined) \<and>
   chain example_env [object_enum_node] 0 = (Inr ''jst.JSONEnum([1, 2])'', [object_enum_node]) \<and>
   JSONSchema_trait_code 1 [object_enum_node] 0 =
     (Inr ''jst.JSONEnum([1, 2])'', [object_enum_node])"
  by code_simp

text \<open>
  C1. A compound extractor whose typecode is a list of simple type names with \<open>null\<close>
  among them matches, sets \<open>allow_none\<close> in the options and drops \<open>null\<close> from the list.
  If one type remains, the trait code is that of the simple-scalar extractor for this
  type with the options, \<open>allow_none\<close> included. Otherwise it is a union call: its one
  positional argument lists one scalar call per remaining type, each the simple-scalar
  trait code for the options without \<open>allow_none\<close> and \<open>allow_undefined\<close>, so neither is
  a keyword of a branch; the union call itself carries the options, with \<open>allow_none\<close>
  and the caller's \<open>allow_undefined\<close>.
\<close>

theorem CompoundTraitCode_nullable:
  assumes "typecode self = Multi ts" and "set ts \<subseteq> set simple_types" and "''null'' \<in> set ts"
  shows "CompoundTraitCode_check self = Inr True \<and>
    (let rest = filter (\<lambda>typ. typ \<noteq> ''null'') ts;
         kw1 = dict_setitem kwargs ''allow_none'' (JBool True);
         item_kwargs = filter (\<lambda>(key, val). key \<notin> set [''allow_none'', ''allow_undefined'']) kw1
     in map_of kw1 ''allow_none'' = Some (JBool True) \<and>
        map_of kw1 ''allow_undefined'' = map_of kwargs ''allow_undefined'' \<and>
        (length rest = 1 \<longrightarrow>
           CompoundTraitCode_trait_code env h self kwargs =
             SimpleTraitCode_trait_code env h \<lparr>schema = schema self, typecode = Single (hd rest)\<rparr> kw1) \<and>
        (length rest \<noteq> 1 \<longrightarrow>
           (\<exists>codes. length codes = length rest \<and>
              CompoundTraitCode_trait_code env h self kwargs =
                Inr (construct_function_call env ''jst.JSONUnion''
                       [Variable (''['' @ join '', '' codes @ '']'')] kw1) \<and>
              (\<forall>i<length rest. \<exists>cls kwi.
                 map_of classes (rest ! i) = Some cls \<and>
                 codes ! i = construct_function_call env cls [] kwi \<and>
                 ''allow_none'' \<notin> fst ` set kwi \<and> ''allow_undefined'' \<notin> fst ` set kwi \<and>
                 SimpleTraitCode_trait_code env h
                   \<lparr>schema = schema self, typecode = Single (rest ! i)\<rparr> item_kwargs =
                   Inr (codes ! i)))))"
proof -
  define rest where "rest = filter (\<lambda>typ. typ \<noteq> ''null'') ts"
  define kw1 where "kw1 = dict_setitem kwargs ''allow_none'' (JBool True)"
  define item_kwargs where "item_kwargs = filter (\<lambda>(key, val). key \<notin> set flag_keys) kw1"
  have rest_simple: "set rest \<subseteq> set simple_types" using assms(2) by (auto simp: rest_def)
  have chk: "CompoundTraitCode_check self = Inr True"
    using assms(1,2) by (auto simp: CompoundTraitCode_check_def list_all_iff)
  have flag1: "map_of kw1 ''allow_none'' = Some (JBool True)"
    by (simp add: kw1_def map_of_dict_setitem)
  have flag2: "map_of kw1 ''allow_undefined'' = map_of kwargs ''allow_undefined''"
    by (simp add: kw1_def map_of_dict_setitem)
  have one: "CompoundTraitCode_trait_code env h self kwargs =
       SimpleTraitCode_trait_code env h \<lparr>schema = schema self, typecode = Single (hd rest)\<rparr> kw1"
    if "length rest = 1"
  proof -
    have "hd rest \<in> set rest" using that by (cases rest) auto
    then have "hd rest \<noteq> []" using rest_simple simple_type_nonempty by blast
    then show ?thesis
      using that assms(1,3)
      by (simp add: CompoundTraitCode_trait_code_def rest_def kw1_def init_Single)
  qed
  have many: "\<exists>codes. length codes = length rest \<and>
         CompoundTraitCode_trait_code env h self kwargs =
           Inr (construct_function_call env ''jst.JSONUnion''
                  [Variable (''['' @ join '', '' codes @ '']'')] kw1) \<and>
         (\<forall>i<length rest. \<exists>cls kwi.
            map_of classes (rest ! i) = Some cls \<and>
            codes ! i = construct_function_call env cls [] kwi \<and>
            ''allow_none'' \<notin> fst ` set kwi \<and> ''allow_undefined'' \<notin> fst ` set kwi \<and>
            SimpleTraitCode_trait_code env h
              \<lparr>schema = schema self, typecode = Single (rest ! i)\<rparr> item_kwargs = Inr (codes ! i))"
    if "length rest \<noteq> 1"
  proof -
    let ?f = "\<lambda>typ. SimpleTraitCode_trait_code env h
                (TraitCodeExtractor_init env h (schema self) (Single typ)) item_kwargs"
    obtain codes where codes: "map_raise ?f rest = Inr codes"
      using map_raise_simple [OF rest_simple] by blast
    have len: "length codes = length rest" using codes by (rule map_raise_length)
    have code: "CompoundTraitCode_trait_code env h self kwargs =
           Inr (construct_function_call env ''jst.JSONUnion''
                  [Variable (''['' @ join '', '' codes @ '']'')] kw1)"
      using that assms(1,3) codes
      by (simp add: CompoundTraitCode_trait_code_def rest_def [symmetric] kw1_def [symmetric]
            item_kwargs_def [symmetric])
    have branch: "\<exists>cls kwi.
            map_of classes (rest ! i) = Some cls \<and>
            codes ! i = construct_function_call env cls [] kwi \<and>
            ''allow_none'' \<notin> fst ` set kwi \<and> ''allow_undefined'' \<notin> fst ` set kwi \<and>
            SimpleTraitCode_trait_code env h
              \<lparr>schema = schema self, typecode = Single (rest ! i)\<rparr> item_kwargs = Inr (codes ! i)"
      if i: "i < length rest" for i
    proof -
      have st: "rest ! i \<in> set simple_types" using i rest_simple by auto
      have run: "SimpleTraitCode_trait_code env h
              \<lparr>schema = schema self, typecode = Single (rest ! i)\<rparr> item_kwargs = Inr (codes ! i)"
        using map_raise_nth [OF codes i] by (simp add: init_Single [OF simple_type_nonempty [OF st]])
      obtain cls where cls: "map_of classes (rest ! i) = Some cls"
        and eq: "SimpleTraitCode_trait_code env h
              \<lparr>schema = schema self, typecode = Single (rest ! i)\<rparr> item_kwargs =
             Inr (construct_function_call env cls []
                    (dict_update item_kwargs
                       (present_items h (schema self) (validation_keys_get (Single (rest ! i))))))"
        using SimpleTraitCode_simple [OF st] by blast
      let ?kwi = "dict_update item_kwargs
                       (present_items h (schema self) (validation_keys_get (Single (rest ! i))))"
      have "codes ! i = construct_function_call env cls [] ?kwi" using run eq by simp
      moreover have "''allow_none'' \<notin> fst ` set ?kwi"
        unfolding item_kwargs_def by (rule branch_kwargs_no_flags) (simp add: flag_keys_def)
      moreover have "''allow_undefined'' \<notin> fst ` set ?kwi"
        unfolding item_kwargs_def by (rule branch_kwargs_no_flags) (simp add: flag_keys_def)
      ultimately show ?thesis using cls run by blast
    qed
    show ?thesis using len code branch by blast
  qed
  have ik: "item_kwargs = filter (\<lambda>(key, val). key \<notin> set [''allow_none'', ''allow_undefined'']) kw1"
    by (simp add: item_kwargs_def flag_keys_def)
  show ?thesis
    unfolding Let_def rest_def [symmetric] kw1_def [symmetric] ik [symmetric]
    using chk flag1 flag2 one many by blast
qed

theorem CompoundTraitCode_nullable_witness:
  "(typecode \<lparr>schema = 0, typecode = Multi [''number'', ''string'', ''null'']\<rparr> =
      Multi [''number'', ''string'', ''null''] \<and>
    set [''number'', ''string'', ''null''] \<subseteq> set simple_types \<and>
    ''null'' \<in> set [''number'', ''string'', ''null''] \<and>
    CompoundTraitCode_check \<lparr>schema = 0, typecode = Multi [''number'', ''string'', ''null'']\<rparr> = Inr True \<and>
    CompoundTraitCode_trait_code example_env [union_node]
        \<lparr>schema = 0, typecode = Multi [''number'', ''string'', ''null'']\<rparr>
        [(''allow_undefined'', JBool False)] =
      Inr ''jst.JSONUnion([jst.JSONNumber(maximum=12), jst.JSONString()], allow_undefined=False, allow_none=True)'') \<and>
   (set [''string'', ''null''] \<subseteq> set simple_types \<and>
    ''null'' \<in> set [''string'', ''null''] \<and>
    CompoundTraitCode_trait_code example_env [nullable_node]
        \<lparr>schema = 0, typecode = Multi [''string'', ''null'']\<rparr> [] =
      Inr ''jst.JSONString(allow_none=True)'')"
  using CompoundTraitCode_nullable [of "\<lparr>schema = 0, typecode = Multi [''number'', ''string'', ''null'']\<rparr>"
          "[''number'', ''string'', ''null'']" "[(''allow_undefined'', JBool False)]" example_env "[union_node]"]
        CompoundTraitCode_nullable [of "\<lparr>schema = 0, typecode = Multi [''string'', ''null'']\<rparr>"
          "[''string'', ''null'']" "[]" example_env "[nullable_node]"]
  by (simp add: CompoundTraitCode_check_def CompoundTraitCode_trait_code_def
        SimpleTraitCode_trait_code_def TraitCodeExtractor_init_def flag_keys_def
        simple_types_def classes_def validation_keys_def present_items_def
        union_node_def nullable_node_def
        example_env_def JSONSchema_env_def render_call_def dict_setitem_def int_repr_def
        nat_repr.simps)

text \<open>
  C10. For the typecode \<open>string\<close>, \<open>boolean\<close> or \<open>null\<close> the simple-scalar extractor
  forwards nothing from the node: the keyword arguments of the generated call are the
  options passed in, unchanged, and the trait code is the same whatever the node
  holds, so \<open>minLength\<close>, \<open>maxLength\<close> or \<open>pattern\<close> on the node leave no trace.
\<close>

theorem SimpleTraitCode_no_constraints:
  assumes "typecode self = Single t" and "t \<in> {''string'', ''boolean'', ''null''}"
  shows "\<exists>cls. map_of classes t = Some cls \<and>
           SimpleTraitCode_trait_code env h self kwargs =
             Inr (construct_function_call env cls [] kwargs) \<and>
           (\<forall>h'. SimpleTraitCode_trait_code env h' self kwargs =
                    SimpleTraitCode_trait_code env h self kwargs)"
proof -
  have "t \<in> set simple_types" using assms(2) by (auto simp: simple_types_def)
  then obtain cls where cls: "map_of classes t = Some cls" using classes_simple by blast
  have "SimpleTraitCode_trait_code env h' self kwargs = Inr (construct_function_call env cls [] kwargs)"
    for h'
    using assms(1) cls validation_keys_other [OF assms(2)]
    by (simp add: SimpleTraitCode_trait_code_def present_items_def)
  then show ?thesis using cls by simp
qed

theorem SimpleTraitCode_no_constraints_witness:
  "typecode \<lparr>schema = 0, typecode = Single ''string''\<rparr> = Single ''string'' \<and>
   ''string'' \<in> {''string'', ''boolean'', ''null''} \<and>
   dict_contains (subtree name_node) ''minLength'' \<and>
   dict_contains (subtree name_node) ''maxLength'' \<and>
   dict_contains (subtree name_node) ''pattern'' \<and>
   SimpleTraitCode_trait_code example_env [name_node] \<lparr>schema = 0, typecode = Single ''string''\<rparr> [] =
     Inr ''jst.JSONString()''"
  using SimpleTraitCode_no_constraints [of "\<lparr>schema = 0, typecode = Single ''string''\<rparr>" "''string''"
          example_env "[name_node]" "[]"]
  by (simp add: classes_def name_node_def dict_contains_def
        example_env_def JSONSchema_env_def render_call_def)

text \<open>
  C9. For a node whose type is the list \<open>["null"]\<close> or the empty list, the compound
  extractor built for the node (no typecode of its own, so it takes the node's type,
  also when that is the empty list) matches, and its trait code does not fail: no type
  remains, and it is the union call over the empty list of branches, \<open>allow_none\<close> being
  set in the \<open>["null"]\<close> case only.
\<close>

theorem CompoundTraitCode_empty_union:
  assumes "schema_type env h a = Multi ts" and "ts = [''null''] \<or> ts = []"
  shows "CompoundTraitCode_check (TraitCodeExtractor_init env h a Undefined) = Inr True \<and>
         CompoundTraitCode_trait_code env h (TraitCodeExtractor_init env h a Undefined) kwargs =
           Inr (construct_function_call env ''jst.JSONUnion'' [Variable ''[]'']
                  (if ts = [''null''] then dict_setitem kwargs ''allow_none'' (JBool True)
                   else kwargs))"
  using assms
  by (auto simp: TraitCodeExtractor_init_def CompoundTraitCode_check_def
        CompoundTraitCode_trait_code_def simple_types_def)

theorem CompoundTraitCode_empty_union_witness:
  "(schema_type example_env [null_only_node] 0 = Multi [''null''] \<and>
    CompoundTraitCode_check (TraitCodeExtractor_init example_env [null_only_node] 0 Undefined) = Inr True \<and>
    CompoundTraitCode_trait_code example_env [null_only_node]
        (TraitCodeExtractor_init example_env [null_only_node] 0 Undefined) [] =
      Inr ''jst.JSONUnion([], allow_none=True)'') \<and>
   (schema_type example_env [no_types_node] 0 = Multi [] \<and>
    CompoundTraitCode_check (TraitCodeExtractor_init example_env [no_types_node] 0 Undefined) = Inr True \<and>
    CompoundTraitCode_trait_code example_env [no_types_node]
        (TraitCodeExtractor_init example_env [no_types_node] 0 Undefined) [] =
      Inr ''jst.JSONUnion([])'')"
  using CompoundTraitCode_empty_union [of example_env "[null_only_node]" 0 "[''null'']" "[]"]
        CompoundTraitCode_empty_union [of example_env "[no_types_node]" 0 "[]" "[]"]
  by (simp add: null_only_node_def no_types_node_def node_type_def
        example_env_def JSONSchema_env_def render_call_def dict_setitem_def)

text \<open>
  C4. An array extractor on a node whose \<open>items\<close> is a list (tuple typing) fails with
  \<open>NotImplementedError\<close> for the \<open>items\<close> keyword as a list, the error the specification
  lists as the unsupported-construct error; it emits no declaration and creates no
  child node. The \<open>items\<close> key is required: on a node without it the trait code fails
  with the \<open>KeyError\<close> of the lookup. Both hold for any options, so in particular for
  every node of type \<open>array\<close>.
\<close>



text \<open>
  C6. An array extractor on a node whose \<open>items\<close> is a single schema makes a child node
  at \<open>items\<close> and takes the child's trait code, the extractor chain applied to the
  child, as the element type: the trait code is the array call on it. The keyword
  arguments are the options with \<open>minlen\<close>, \<open>maxlen\<close> and \<open>uniqueItems\<close> set to the node's
  \<open>minItems\<close>, \<open>maxItems\<close> and \<open>uniqueItems\<close>, each exactly when the node has the key;
  a key the node lacks leaves its keyword as the options had it, and no other keyword
  changes. An error of the child's trait code is the error of the array's.
\<close>

theorem ArrayTraitCode_single_items:
  assumes "schema_getitem h (schema self) ''items'' = Inr items"
    and "\<not> isinstance_list items"
    and "make_child env h (schema self) items = (child, h1)"
    and "node_trait_code env h1 child = (res, h2)"
  shows "\<exists>kw.
      ArrayTraitCode_trait_code env h self kwargs =
        (case res of
           Inl e \<Rightarrow> (Inl e, h2)
         | Inr itemtype \<Rightarrow>
             (Inr (construct_function_call env ''jst.JSONArray'' [Variable itemtype] kw), h2)) \<and>
      (\<forall>(key, name) \<in> set [(''minItems'', ''minlen''), (''maxItems'', ''maxlen''),
                              (''uniqueItems'', ''uniqueItems'')].
         map_of kw name =
           (case schema_getitem h (schema self) key of
              Inr v \<Rightarrow> Some v
            | Inl e \<Rightarrow> map_of kwargs name)) \<and>
      (\<forall>name. name \<notin> set [''minlen'', ''maxlen'', ''uniqueItems''] \<longrightarrow>
         map_of kw name = map_of kwargs name)"
proof -
  let ?a = "schema self"
  let ?kw = "forward_key h ?a ''uniqueItems'' ''uniqueItems''
               (forward_key h ?a ''maxItems'' ''maxlen''
                  (forward_key h ?a ''minItems'' ''minlen'' kwargs))"
  have run: "ArrayTraitCode_trait_code env h self kwargs =
        (case res of
           Inl e \<Rightarrow> (Inl e, h2)
         | Inr itemtype \<Rightarrow>
             (Inr (construct_function_call env ''jst.JSONArray'' [Variable itemtype] ?kw), h2))"
    using assms by (simp add: ArrayTraitCode_trait_code_def split: sum.splits)
  have get: "(case schema_getitem h ?a key of Inr v \<Rightarrow> Some v | Inl e \<Rightarrow> m) =
             (case map_of (subtree (h ! ?a)) key of None \<Rightarrow> m | Some v \<Rightarrow> Some v)" for key m
    by (simp add: schema_getitem_def dict_getitem_def split: option.splits)
  have minlen: "map_of ?kw ''minlen'' =
      (case schema_getitem h ?a ''minItems'' of Inr v \<Rightarrow> Some v | Inl e \<Rightarrow> map_of kwargs ''minlen'')"
    by (simp only: get) (simp add: forward_key_other forward_key_same split: option.splits)
  have maxlen: "map_of ?kw ''maxlen'' =
      (case schema_getitem h ?a ''maxItems'' of Inr v \<Rightarrow> Some v | Inl e \<Rightarrow> map_of kwargs ''maxlen'')"
    by (simp only: get) (simp add: forward_key_other forward_key_same split: option.splits)
  have unique: "map_of ?kw ''uniqueItems'' =
      (case schema_getitem h ?a ''uniqueItems'' of Inr v \<Rightarrow> Some v
       | Inl e \<Rightarrow> map_of kwargs ''uniqueItems'')"
    by (simp only: get) (simp add: forward_key_other forward_key_same split: option.splits)
  have fwd: "\<forall>(key, name) \<in> set [(''minItems'', ''minlen''), (''maxItems'', ''maxlen''),
                              (''uniqueItems'', ''uniqueItems'')].
         map_of ?kw name =
           (case schema_getitem h ?a key of Inr v \<Rightarrow> Some v | Inl e \<Rightarrow> map_of kwargs name)"
    using minlen maxlen unique by (simp only: list.set ball_simps prod.case)
  have other: "\<forall>name. name \<notin> set [''minlen'', ''maxlen'', ''uniqueItems''] \<longrightarrow>
         map_of ?kw name = map_of kwargs name"
    by (simp add: forward_key_other)
  show ?thesis
    apply (rule exI [of _ ?kw])
    using run fwd other by blast
qed

theorem ArrayTraitCode_single_items_witness:
  "schema_getitem [people_node] 0 ''items'' = Inr (JObj [(''$ref'', JStr ''#/definitions/Person'')]) \<and>
   \<not> isinstance_list (JObj [(''$ref'', JStr ''#/definitions/Person'')]) \<and>
   fst (make_child example_env [people_node] 0 (JObj [(''$ref'', JStr ''#/definitions/Person'')])) = 1 \<and>
   fst (ArrayTraitCode_trait_code example_env [people_node]
          \<lparr>schema = 0, typecode = Single ''array''\<rparr> [(''allow_undefined'', JBool False)]) =
     Inr ''jst.JSONArray(jst.JSONInstance(Person), allow_undefined=False, minlen=1, uniqueItems=True)''"
proof -
  let ?items = "JObj [(''$ref'', JStr ''#/definitions/Person'')]"
  let ?mc = "make_child example_env [people_node] 0 ?items"
  let ?tc = "node_trait_code example_env (snd ?mc) (fst ?mc)"
  have items: "schema_getitem [people_node] (schema \<lparr>schema = 0, typecode = Single ''array''\<rparr>) ''items'' =
                 Inr ?items"
    by code_simp
  have single: "\<not> isinstance_list ?items" by simp
  have child: "make_child example_env [people_node]
                 (schema \<lparr>schema = 0, typecode = Single ''array''\<rparr>) ?items = (fst ?mc, snd ?mc)"
    by simp
  have code: "?tc = (fst ?tc, snd ?tc)" by simp
  have addr: "fst ?mc = 1" by code_simp
  have elem: "fst ?tc = Inr ''jst.JSONInstance(Person)''" by code_simp
  have run: "fst (ArrayTraitCode_trait_code example_env [people_node]
          \<lparr>schema = 0, typecode = Single ''array''\<rparr> [(''allow_undefined'', JBool False)]) =
     Inr ''jst.JSONArray(jst.JSONInstance(Person), allow_undefined=False, minlen=1, uniqueItems=True)''"
    by code_simp
  from ArrayTraitCode_single_items [OF items single child code, of "[(''allow_undefined'', JBool False)]"]
  have "\<exists>kw. ArrayTraitCode_trait_code example_env [people_node]
          \<lparr>schema = 0, typecode = Single ''array''\<rparr> [(''allow_undefined'', JBool False)] =
        (Inr (construct_function_call example_env ''jst.JSONArray''
                [Variable ''jst.JSONInstance(Person)''] kw), snd ?tc)"
    by (auto simp: elem)
  then show ?thesis using items single addr run by simp
qed

text \<open>
  C2. On a node with a \<open>$ref\<close> key the reference extractor matches. When the reference
  resolves to an object-class node, the trait code is the instance call on the class
  name of the target, with the options. Otherwise it is the trait code of a node that
  has the attributes of the resolved node and the metadata of the referencing node;
  this node is a copy, so the resolved node keeps its own metadata. The methods of the
  node class are taken to add objects to the store only.
\<close>

theorem RefTraitCode_reference:
  assumes "allocates_only env" and "schema self < length h"
    and "schema_getitem h (schema self) ''$ref'' = Inr r"
    and "get_reference env h (schema self) r = (Inr ref, h1)"
  shows "RefTraitCode_check h self \<and>
         (is_object env h1 ref \<longrightarrow>
            RefTraitCode_trait_code env h self kwargs =
              (Inr (construct_function_call env ''jst.JSONInstance''
                      [Variable (classname env h1 ref)] kwargs), h1)) \<and>
         (\<not> is_object env h1 ref \<longrightarrow>
            (\<exists>c h3. RefTraitCode_trait_code env h self kwargs = node_trait_code env h3 c \<and>
               c < length h3 \<and> c \<noteq> ref \<and>
               h3 ! c = (h1 ! ref)\<lparr>metadata := metadata (h ! schema self)\<rparr> \<and>
               h3 ! ref = h1 ! ref))"
proof -
  have chk: "RefTraitCode_check h self"
    using assms(3) by (auto simp: RefTraitCode_check_def schema_contains_iff)
  have e1: "extends h h1" and r1: "ref < length h1"
    using allocates_get_reference [OF assms(1,2,4)] by simp_all
  have obj: "RefTraitCode_trait_code env h self kwargs =
              (Inr (construct_function_call env ''jst.JSONInstance''
                      [Variable (classname env h1 ref)] kwargs), h1)"
    if "is_object env h1 ref"
    using that assms(3,4) by (simp add: RefTraitCode_trait_code_def)
  have other: "\<exists>c h3. RefTraitCode_trait_code env h self kwargs = node_trait_code env h3 c \<and>
               c < length h3 \<and> c \<noteq> ref \<and>
               h3 ! c = (h1 ! ref)\<lparr>metadata := metadata (h ! schema self)\<rparr> \<and>
               h3 ! ref = h1 ! ref"
    if no: "\<not> is_object env h1 ref"
  proof -
    obtain c h2 where cp: "copy_node env h1 ref = (c, h2)" by (cases "copy_node env h1 ref")
    have e2: "extends h1 h2" and fresh: "length h1 \<le> c" and c2: "c < length h2"
      and cv: "h2 ! c = h1 ! ref"
      using allocates_copy_node [OF assms(1) r1 cp] by simp_all
    let ?h3 = "h2[c := (h2 ! c)\<lparr>metadata := metadata (h2 ! schema self)\<rparr>]"
    have m: "h2 ! schema self = h ! schema self"
      using extends_nth [OF extends_trans [OF e1 e2] assms(2)] .
    have run: "RefTraitCode_trait_code env h self kwargs = node_trait_code env ?h3 c"
      using no assms(3,4) cp by (simp add: RefTraitCode_trait_code_def)
    have neq: "c \<noteq> ref" using fresh r1 by simp
    have spliced: "?h3 ! c = (h1 ! ref)\<lparr>metadata := metadata (h ! schema self)\<rparr>"
      using c2 cv m by simp
    have kept: "?h3 ! ref = h1 ! ref"
      using neq extends_nth [OF e2 r1] by simp
    have "c < length ?h3" using c2 by simp
    then show ?thesis using run neq spliced kept by blast
  qed
  show ?thesis using chk obj other by blast
qed

theorem RefTraitCode_reference_witness:
  "(schema_getitem [person_ref_node] 0 ''$ref'' = Inr (JStr ''#/definitions/Person'') \<and>
    fst (get_reference example_env [person_ref_node] 0 (JStr ''#/definitions/Person'')) = Inr 1 \<and>
    is_object example_env
      (snd (get_reference example_env [person_ref_node] 0 (JStr ''#/definitions/Person''))) 1 \<and>
    fst (RefTraitCode_trait_code example_env [person_ref_node]
           \<lparr>schema = 0, typecode = Undefined\<rparr> [(''allow_undefined'', JBool False)]) =
      Inr ''jst.JSONInstance(Person, allow_undefined=False)'') \<and>
   (schema_getitem [alias_node] 0 ''$ref'' = Inr (JStr ''#/properties/people'') \<and>
    fst (get_reference example_env [alias_node] 0 (JStr ''#/properties/people'')) = Inr 1 \<and>
    \<not> is_object example_env
      (snd (get_reference example_env [alias_node] 0 (JStr ''#/properties/people''))) 1 \<and>
    fst (RefTraitCode_trait_code example_env [alias_node]
           \<lparr>schema = 0, typecode = Undefined\<rparr> [(''allow_undefined'', JBool False)]) =
      Inr (''jst.JSONArray(jst.JSONInstance(Person), description='' @ [CHR 0x27] @ ''everyone'' @
             [CHR 0x27] @ '', minlen=1)''))"
proof -
  let ?self = "\<lparr>schema = 0, typecode = Undefined\<rparr>"
  let ?g1 = "get_reference example_env [person_ref_node] (schema ?self) (JStr ''#/definitions/Person'')"
  let ?g2 = "get_reference example_env [alias_node] (schema ?self) (JStr ''#/properties/people'')"
  have alloc: "allocates_only example_env"
    using JSONSchema_env_well_behaved [of 3] by (simp add: example_env_def)
  have v1: "schema ?self < length [person_ref_node]" and v2: "schema ?self < length [alias_node]"
    by simp_all
  have i1: "schema_getitem [person_ref_node] (schema ?self) ''$ref'' = Inr (JStr ''#/definitions/Person'')"
    by code_simp
  have i2: "schema_getitem [alias_node] (schema ?self) ''$ref'' = Inr (JStr ''#/properties/people'')"
    by code_simp
  have f1: "fst ?g1 = Inr 1" by code_simp
  have f2: "fst ?g2 = Inr 1" by code_simp
  have o1: "is_object example_env (snd ?g1) 1" by code_simp
  have o2: "\<not> is_object example_env (snd ?g2) 1" by code_simp
  have g1: "?g1 = (Inr 1, snd ?g1)" using f1 by (simp add: prod_eq_iff)
  have g2: "?g2 = (Inr 1, snd ?g2)" using f2 by (simp add: prod_eq_iff)
  have r1: "fst (RefTraitCode_trait_code example_env [person_ref_node] ?self
                   [(''allow_undefined'', JBool False)]) =
            Inr ''jst.JSONInstance(Person, allow_undefined=False)''"
    by code_simp
  have r2: "fst (RefTraitCode_trait_code example_env [alias_node] ?self
                   [(''allow_undefined'', JBool False)]) =
            Inr (''jst.JSONArray(jst.JSONInstance(Person), description='' @ [CHR 0x27] @
                   ''everyone'' @ [CHR 0x27] @ '', minlen=1)'')"
    by code_simp
  have "RefTraitCode_check [person_ref_node] ?self"
    using RefTraitCode_reference [OF alloc v1 i1 g1] by simp
  moreover have "RefTraitCode_check [alias_node] ?self"
    using RefTraitCode_reference [OF alloc v2 i2 g2] by simp
  ultimately show ?thesis using i1 i2 f1 f2 o1 o2 r1 r2 by simp
qed

text \<open>
  C8. Running an extractor leaves every node of the store as it was: the store after
  \<open>trait_code\<close> holds the objects of the store before at their addresses, with the same
  subtree, root and metadata, and has at most gained objects (the copy that the
  reference extractor makes and gives the metadata to, the children made for items and
  sub-schemas). \<open>check\<close> only reads. The trait code is a function of the node: running
  the extractor again in the store it left, or on any node with the same attributes,
  gives the same result. The methods of the node class, which are not among the
  source files, are taken to add objects only and to read nothing but the node.
\<close>

theorem extractors_leave_nodes_unchanged:
  assumes "allocates_only env" and "reads_node_only env" and "schema self < length h"
  shows "case trait_code k env h self kwargs of
           (res, h') \<Rightarrow>
             length h \<le> length h' \<and>
             (\<forall>a<length h. h' ! a = h ! a) \<and>
             check k env h' self = check k env h self \<and>
             fst (trait_code k env h' self kwargs) = res \<and>
             (\<forall>h2 self2. same_node h (schema self) h2 (schema self2) \<and>
                          typecode self2 = typecode self \<longrightarrow>
                fst (trait_code k env h2 self2 kwargs) = res)"
proof -
  obtain res h' where run: "trait_code k env h self kwargs = (res, h')"
    by (cases "trait_code k env h self kwargs")
  have ext: "extends h h'" using trait_code_frame [OF assms(1,3), of k kwargs] run by simp
  have len: "length h \<le> length h'" using ext by (rule extends_length)
  have frame: "\<forall>a<length h. h' ! a = h ! a" using ext extends_nth by blast
  have same: "same_node h' (schema self) h (schema self)"
    using assms(3) len frame by (simp add: same_node_def)
  have chk: "check k env h' self = check k env h self"
    using check_pure [OF assms(2) same] by simp
  have again: "fst (trait_code k env h' self kwargs) = res"
    using trait_code_pure [OF assms(1,2) same, of k kwargs] run by simp
  have pure: "fst (trait_code k env h2 self2 kwargs) = res"
    if "same_node h (schema self) h2 (schema self2) \<and> typecode self2 = typecode self"
    for h2 self2
    using trait_code_pure [OF assms(1,2), of h self h2 self2 k kwargs] that run by simp
  show ?thesis unfolding run using len frame chk again pure by simp
qed

theorem extractors_leave_nodes_unchanged_witness:
  "allocates_only example_env \<and> reads_node_only example_env \<and>
   fst (trait_code RefTraitCode example_env [alias_node] \<lparr>schema = 0, typecode = Undefined\<rparr> []) =
     Inr (''jst.JSONArray(jst.JSONInstance(Person), description='' @ [CHR 0x27] @ ''everyone'' @
            [CHR 0x27] @ '', minlen=1)'') \<and>
   length (snd (trait_code RefTraitCode example_env [alias_node]
                  \<lparr>schema = 0, typecode = Undefined\<rparr> [])) = 5 \<and>
   snd (trait_code RefTraitCode example_env [alias_node] \<lparr>schema = 0, typecode = Undefined\<rparr> []) ! 0 =
     alias_node \<and>
   fst (trait_code RefTraitCode example_env
          (snd (trait_code RefTraitCode example_env [alias_node]
                  \<lparr>schema = 0, typecode = Undefined\<rparr> []))
          \<lparr>schema = 0, typecode = Undefined\<rparr> []) =
     fst (trait_code RefTraitCode example_env [alias_node] \<lparr>schema = 0, typecode = Undefined\<rparr> [])"
proof -
  let ?self = "\<lparr>schema = 0, typecode = Undefined\<rparr>"
  let ?run = "trait_code RefTraitCode example_env [alias_node] ?self []"
  have alloc: "allocates_only example_env" and reads: "reads_node_only example_env"
    using JSONSchema_env_well_behaved [of 3] by (simp_all add: example_env_def)
  have valid: "schema ?self < length [alias_node]" by simp
  have code: "fst ?run =
     Inr (''jst.JSONArray(jst.JSONInstance(Person), description='' @ [CHR 0x27] @ ''everyone'' @
            [CHR 0x27] @ '', minlen=1)'')"
    by code_simp
  have size: "length (snd ?run) = 5" by code_simp
  have "case ?run of
           (res, h') \<Rightarrow>
             length [alias_node] \<le> length h' \<and>
             (\<forall>a<length [alias_node]. h' ! a = [alias_node] ! a) \<and>
             check RefTraitCode example_env h' ?self = check RefTraitCode example_env [alias_node] ?self \<and>
             fst (trait_code RefTraitCode example_env h' ?self []) = res \<and>
             (\<forall>h2 self2. same_node [alias_node] (schema ?self) h2 (schema self2) \<and>
                          typecode self2 = typecode ?self \<longrightarrow>
                fst (trait_code RefTraitCode example_env h2 self2 []) = res)"
    by (rule extractors_leave_nodes_unchanged [OF alloc reads valid])
  then have "snd ?run ! 0 = alias_node \<and>
             fst (trait_code RefTraitCode example_env (snd ?run) ?self []) = fst ?run"
    by (cases ?run) simp
  then show ?thesis using alloc reads code size by simp
qed

end
